theory Spec2Isabelle
  imports
    Complex_Main
    "HOL-Library.Char_ord"
    "HOL-Library.List_Lexorder"
    "HOL-Library.Multiset"
    "HOL-Library.Product_Lexorder"
begin

section \<open>Rainfall pipeline of \<open>lluvia_processor/src/main.py\<close>\<close>

text \<open>
  The data frames of the source are lists of rows, in row order. A cell that pandas
  holds as NaN or NaT is \<open>None\<close>. Timestamps are whole seconds (the source formats
  and parses them with \<open>%Y-%m-%dT%H:%M:%S\<close>), counted from an arbitrary midnight, and a
  calendar date is a day number: \<open>fechaobservacion.dt.date\<close> is \<open>t div 86400\<close>.
  Rainfall values are \<open>float64\<close> in the source and real numbers here: sums are
  exact, rounding is not modelled.
\<close>

subsection \<open>Rows\<close>

record con_estacion =
  codigoestacion :: string

record con_localidad = con_estacion +
  municipio :: "string option"
  departamento :: "string option"

text \<open>A raw record of the remote API, as a row of \<open>df_nrt\<close>: the numeric columns hold what
  \<open>pd.to_numeric(errors='coerce')\<close> gives, the timestamp what \<open>pd.to_datetime\<close> gives.\<close>

record registro = con_localidad +
  fechaobservacion :: "int option"
  valorobservado :: "real option"
  latitud :: "real option"
  longitud :: "real option"

record con_fecha = con_localidad +
  fecha :: int

text \<open>A row of \<open>df_lluvia_diaria\<close> (DailyTotal).\<close>

record fila_diaria = con_fecha +
  lluvia_diaria :: real

text \<open>A row of \<open>df_acumulados\<close>, the long table the Feature Builder collects in \<open>resultados\<close>.\<close>

record fila_acumulado = con_fecha +
  dias_acumulados :: nat
  lluvia_acumulada :: real

text \<open>A row of \<open>resultados_pivot\<close>, the wide table: the columns \<open>data\<close>, \<open>daily rain\<close>,
  \<open>1-rain ant.rain\<close>, ..., \<open>30-rain ant.rain\<close> in the order of \<open>orden_columnas\<close>.\<close>

record fila_modelo = con_estacion +
  data :: "int option"
  daily_rain :: "real option"
  rain_1 :: "real option"
  rain_2 :: "real option"
  rain_3 :: "real option"
  rain_15 :: "real option"
  rain_30 :: "real option"

text \<open>The exceptions: the ones the source raises by name, and the ones pandas and Python
  raise inside it (a division by zero, a NaT that cannot be formatted, the columns of an
  empty table, a pivot with a repeated cell).\<close>

datatype error =
    ArchivosNoDisponibles
  | ErrorCargandoRegion
  | DivisionPorCero
  | CoberturaInsuficiente
  | SinDatosAPI
  | FechaInvalida
  | SinDatosControlCalidad
  | SinDatosModelo
  | TablaVacia
  | IndiceDuplicado
  | ErrorGuardando

subsection \<open>pandas helpers\<close>

text \<open>\<open>Series.nunique()\<close>: the number of distinct values.\<close>

definition nunique :: "'a list \<Rightarrow> nat" where
  "nunique xs = length (remdups xs)"

text \<open>\<open>Series.max()\<close> of a non-empty column.\<close>

definition maximo :: "int list \<Rightarrow> int" where
  "maximo xs = fold max (tl xs) (hd xs)"

text \<open>\<open>str.strip()\<close>. A character is a code point below 256, and \<open>espacio\<close> holds the
  twelve of them that Python takes as white space (\<open>str.isspace\<close>): 0x09 to 0x0D, 0x1C to
  0x1F, the blank 0x20, 0x85 and 0xA0.\<close>

definition espacio :: "char \<Rightarrow> bool" where
  "espacio c =
     (c \<in> set [CHR 0x09, CHR 0x0A, CHR 0x0B, CHR 0x0C, CHR 0x0D, CHR 0x1C, CHR 0x1D, CHR 0x1E,
               CHR 0x1F, CHR 0x20, CHR 0x85, CHR 0xA0])"

definition strip :: "string \<Rightarrow> string" where
  "strip s = rev (dropWhile espacio (rev (dropWhile espacio s)))"

text \<open>The rows of one station: a group of \<open>groupby('codigoestacion')\<close>.\<close>

definition grupo_estacion :: "string \<Rightarrow> ('a con_estacion_scheme) list \<Rightarrow> ('a con_estacion_scheme) list" where
  "grupo_estacion e df = filter (\<lambda>r. codigoestacion r = e) df"

text \<open>The group keys of \<open>groupby('codigoestacion')\<close>, which pandas sorts.\<close>

definition estaciones :: "('a con_estacion_scheme) list \<Rightarrow> string list" where
  "estaciones df = sort (remdups (map codigoestacion df))"

subsection \<open>Daily Aggregator: \<open>procesar_lluvia_diaria\<close>, lines 395 to 412\<close>

text \<open>The key of \<open>groupby(['codigoestacion', 'fecha', 'municipio', 'departamento'])\<close>; pandas
  drops the rows where a key column is missing.\<close>

definition clave_grupo :: "registro \<Rightarrow> (string \<times> int \<times> string \<times> string) option" where
  "clave_grupo r =
     (case (fechaobservacion r, municipio r, departamento r) of
        (Some t, Some m, Some d) \<Rightarrow> Some (codigoestacion r, t div 86400, m, d)
      | _ \<Rightarrow> None)"

text \<open>\<open>['valorobservado'].sum()\<close> of one group: missing values are skipped.\<close>

definition suma_grupo :: "(string \<times> int \<times> string \<times> string) \<Rightarrow> registro list \<Rightarrow> real" where
  "suma_grupo k gdf =
     sum_list (List.map_filter valorobservado (filter (\<lambda>r. clave_grupo r = Some k) gdf))"

definition fila_de_grupo :: "(string \<times> int \<times> string \<times> string) \<Rightarrow> real \<Rightarrow> fila_diaria" where
  "fila_de_grupo k v =
     (case k of (e, f, m, d) \<Rightarrow>
        \<lparr>codigoestacion = e, municipio = Some m, departamento = Some d, fecha = f,
         lluvia_diaria = v\<rparr>)"

definition lluvia_diaria_agrupada :: "registro list \<Rightarrow> fila_diaria list" where
  "lluvia_diaria_agrupada gdf_nrt_andina =
     (let gdf_nrt_andina2 =
            map (\<lambda>r. r\<lparr>codigoestacion := strip (codigoestacion r)\<rparr>) gdf_nrt_andina;
          claves = sort (remdups (List.map_filter clave_grupo gdf_nrt_andina2))
      in map (\<lambda>k. fila_de_grupo k (suma_grupo k gdf_nrt_andina2)) claves)"

subsection \<open>Quality Gate: \<open>control_calidad_datos\<close>\<close>

text \<open>\<open>int(total_dias_disponibles * 0.8)\<close>. The double nearest to 0.8 lies above 0.8 by less
  than \<open>10\<^sup>-\<^sup>1\<^sup>6\<close>, so for every count of days a table can hold the truncated product is
  the integer part of \<open>4 * n / 5\<close>.\<close>

definition umbral_minimo_dias :: "nat \<Rightarrow> nat" where
  "umbral_minimo_dias total_dias_disponibles = (total_dias_disponibles * 4) div 5"

text \<open>\<open>groupby('codigoestacion')['fecha'].nunique()\<close>: one pair per station that has a row.\<close>

definition conteo_dias :: "('a con_fecha_scheme) list \<Rightarrow> (string \<times> nat) list" where
  "conteo_dias df = map (\<lambda>e. (e, nunique (map fecha (grupo_estacion e df)))) (estaciones df)"

definition estaciones_a_excluir :: "fila_diaria list \<Rightarrow> string list" where
  "estaciones_a_excluir df_lluvia_diaria =
     (let total_dias_disponibles = nunique (map fecha df_lluvia_diaria);
          estaciones_con_faltantes =
            filter (\<lambda>(e, num_dias). num_dias < umbral_minimo_dias total_dias_disponibles)
              (conteo_dias df_lluvia_diaria)
      in map fst estaciones_con_faltantes)"

definition df_lluvia_completo :: "fila_diaria list \<Rightarrow> fila_diaria list" where
  "df_lluvia_completo df_lluvia_diaria =
     filter (\<lambda>r. codigoestacion r \<notin> set (estaciones_a_excluir df_lluvia_diaria)) df_lluvia_diaria"

text \<open>\<open>pd.date_range(end=fecha_final, periods=4)\<close>.\<close>

definition ultimos_dias :: "int \<Rightarrow> int list" where
  "ultimos_dias fecha_final = [fecha_final - 3, fecha_final - 2, fecha_final - 1, fecha_final]"

text \<open>The count runs over \<open>df_ultimos4\<close>, the rows of the last four days, so it has an entry
  only for a station that has a row there.\<close>

definition estaciones_incompletas :: "fila_diaria list \<Rightarrow> string list" where
  "estaciones_incompletas completo =
     (let fecha_final = maximo (map fecha completo);
          df_ultimos4 = filter (\<lambda>r. fecha r \<in> set (ultimos_dias fecha_final)) completo;
          conteo_por_estacion = conteo_dias df_ultimos4
      in map fst (filter (\<lambda>(e, n). n < 4) conteo_por_estacion))"

text \<open>\<open>groupby('codigoestacion')[['municipio', 'departamento']].nunique()\<close>, which does not
  count missing values, and the stations where one of the two counts exceeds 1.\<close>

definition codigos_inconsistentes :: "fila_diaria list \<Rightarrow> string list" where
  "codigos_inconsistentes df =
     filter (\<lambda>e. 1 < nunique (List.map_filter municipio (grupo_estacion e df))
               \<or> 1 < nunique (List.map_filter departamento (grupo_estacion e df)))
       (estaciones df)"

text \<open>The station registry: the rows \<open>(codigo, mpio_def, depto_def)\<close> of the shapefile.
  \<open>set_index('codigo')[col].to_dict()\<close> keeps the last row of a repeated code.\<close>

type_synonym shape_estaciones = "(string \<times> string option \<times> string option) list"

definition dict_mpio_def :: "shape_estaciones \<Rightarrow> string \<rightharpoonup> string option" where
  "dict_mpio_def shape = map_of (rev (map (\<lambda>(c, m, d). (strip c, m)) shape))"

definition dict_depto_def :: "shape_estaciones \<Rightarrow> string \<rightharpoonup> string option" where
  "dict_depto_def shape = map_of (rev (map (\<lambda>(c, m, d). (strip c, d)) shape))"

text \<open>\<open>Series.map(dict)\<close>: a key the dictionary lacks gives NaN.\<close>

definition map_dict :: "(string \<rightharpoonup> string option) \<Rightarrow> string \<Rightarrow> string option" where
  "map_dict dic e = (case dic e of None \<Rightarrow> None | Some v \<Rightarrow> v)"

text \<open>\<open>corregir_inconsistencias_localidades\<close>. The registry is \<open>None\<close> when the shapefile
  does not exist or reading it raises: the source logs and returns the table as it is.\<close>

definition corregir_inconsistencias_localidades ::
  "shape_estaciones option \<Rightarrow> fila_diaria list \<Rightarrow> string list \<Rightarrow> fila_diaria list" where
  "corregir_inconsistencias_localidades shape df_lluvia_filtrado codigos =
     (case shape of
        None \<Rightarrow> df_lluvia_filtrado
      | Some shape_estaciones \<Rightarrow>
          map (\<lambda>r. if codigoestacion r \<in> set codigos
                   then r\<lparr>municipio := map_dict (dict_mpio_def shape_estaciones) (codigoestacion r),
                          departamento := map_dict (dict_depto_def shape_estaciones) (codigoestacion r)\<rparr>
                   else r)
            df_lluvia_filtrado)"

text \<open>The dates of \<open>df_lluvia_diaria\<close> are group keys of the Daily Aggregator, never NaT, so
  the check \<open>pd.isna(fecha_final)\<close> of the source cannot fire on a table of this type.\<close>

definition df_lluvia_filtrado :: "fila_diaria list \<Rightarrow> fila_diaria list" where
  "df_lluvia_filtrado completo =
     filter (\<lambda>r. codigoestacion r \<notin> set (estaciones_incompletas completo)) completo"

definition control_calidad_datos ::
  "shape_estaciones option \<Rightarrow> fila_diaria list \<Rightarrow> error + fila_diaria list" where
  "control_calidad_datos shape df_lluvia_diaria =
     (let completo = df_lluvia_completo df_lluvia_diaria
      in if completo = [] then Inl SinDatosControlCalidad
         else
           let filtrado = df_lluvia_filtrado completo;
               codigos = codigos_inconsistentes filtrado
           in Inr (if codigos \<noteq> []
                   then corregir_inconsistencias_localidades shape filtrado codigos
                   else filtrado))"

subsection \<open>Feature Builder: \<open>generar_formato_modelo\<close>\<close>

definition ventanas :: "nat list" where
  "ventanas = [1, 2, 3, 15, 30]"

text \<open>\<open>sort_values('fecha', ascending=False)\<close> runs the default quicksort of pandas: the
  result holds the same rows, latest date first, and the order of two rows of one date is
  not fixed. So the sort is a parameter \<open>ordenar\<close> of the Feature Builder, and
  \<open>orden_descendente\<close> says what every such sort does.\<close>

type_synonym ordenacion = "fila_diaria list \<Rightarrow> fila_diaria list"

definition orden_descendente :: "ordenacion \<Rightarrow> bool" where
  "orden_descendente ordenar \<longleftrightarrow>
     (\<forall>xs. mset (ordenar xs) = mset xs \<and> sorted (map (\<lambda>r. - fecha r) (ordenar xs)))"

text \<open>One such sort: the stable one, which keeps the rows of one date in their order.\<close>

definition orden_estable :: ordenacion where
  "orden_estable xs = sort_key (\<lambda>r. - fecha r) xs"

text \<open>The window of one station: the rows of its group dated from \<open>fecha_final - 29\<close> days on,
  where \<open>fecha_final\<close> is the latest date of the whole table, sorted by date, latest first.\<close>

definition datos_est :: "ordenacion \<Rightarrow> int \<Rightarrow> fila_diaria list \<Rightarrow> fila_diaria list" where
  "datos_est ordenar fecha_final grupo =
     ordenar (filter (\<lambda>r. fecha_final - 29 \<le> fecha r) grupo)"

definition fecha_corte :: "fila_diaria list \<Rightarrow> nat \<Rightarrow> int" where
  "fecha_corte datos dias =
     (if dias < length datos then fecha (datos ! dias) else fecha (last datos))"

text \<open>The body of the loop over the stations: nothing for an empty window, else the entry
  of day 0 and one entry per horizon.\<close>

definition filas_acumuladas :: "string \<Rightarrow> fila_diaria list \<Rightarrow> fila_acumulado list" where
  "filas_acumuladas estacion datos =
     (case datos of
        [] \<Rightarrow> []
      | r0 # datos_sin_dia0 \<Rightarrow>
          \<lparr>codigoestacion = estacion, municipio = municipio r0, departamento = departamento r0,
           fecha = fecha r0, dias_acumulados = 0, lluvia_acumulada = lluvia_diaria r0\<rparr>
          # map (\<lambda>dias.
                 \<lparr>codigoestacion = estacion, municipio = municipio r0,
                  departamento = departamento r0, fecha = fecha_corte datos dias,
                  dias_acumulados = dias,
                  lluvia_acumulada = sum_list (map lluvia_diaria (take dias datos_sin_dia0))\<rparr>)
              ventanas)"

definition resultados :: "ordenacion \<Rightarrow> fila_diaria list \<Rightarrow> fila_acumulado list" where
  "resultados ordenar df_filtrado =
     (let fecha_final = maximo (map fecha df_filtrado)
      in concat (map (\<lambda>estacion.
                        filas_acumuladas estacion
                          (datos_est ordenar fecha_final (grupo_estacion estacion df_filtrado)))
                   (estaciones df_filtrado)))"

text \<open>\<open>pivot(index='codigoestacion', columns='nombre_columna', values='lluvia_acumulada')\<close>.
  The column name is a one-to-one function of \<open>dias_acumulados\<close> (\<open>daily rain\<close> for 0), so
  the cell of a station and a column is the value of the entry with that number of days;
  a cell without an entry is NaN.\<close>

definition pivot_valor :: "fila_acumulado list \<Rightarrow> string \<Rightarrow> nat \<Rightarrow> real option" where
  "pivot_valor df_acumulados e dias =
     map_option lluvia_acumulada
       (find (\<lambda>a. codigoestacion a = e \<and> dias_acumulados a = dias) df_acumulados)"

text \<open>The left merge with \<open>fecha_daily\<close>, the dates of the entries of day 0.\<close>

definition fecha_daily :: "fila_acumulado list \<Rightarrow> string \<Rightarrow> int option" where
  "fecha_daily df_acumulados e =
     map_option fecha
       (find (\<lambda>a. codigoestacion a = e \<and> dias_acumulados a = 0) df_acumulados)"

text \<open>pandas raises on the columns of an empty \<open>DataFrame([])\<close> and on a pivot with two
  entries for one cell; both are branches here.\<close>

definition generar_formato_modelo :: "ordenacion \<Rightarrow> fila_diaria list \<Rightarrow> error + fila_modelo list" where
  "generar_formato_modelo ordenar df_filtrado =
     (if df_filtrado = [] then Inl SinDatosModelo
      else
        let df_acumulados = resultados ordenar df_filtrado
        in if df_acumulados = [] then Inl TablaVacia
           else if \<not> distinct (map (\<lambda>a. (codigoestacion a, dias_acumulados a)) df_acumulados)
           then Inl IndiceDuplicado
           else Inr (map (\<lambda>e.
                       \<lparr>codigoestacion = e,
                        data = fecha_daily df_acumulados e,
                        daily_rain = pivot_valor df_acumulados e 0,
                        rain_1 = pivot_valor df_acumulados e 1,
                        rain_2 = pivot_valor df_acumulados e 2,
                        rain_3 = pivot_valor df_acumulados e 3,
                        rain_15 = pivot_valor df_acumulados e 15,
                        rain_30 = pivot_valor df_acumulados e 30\<rparr>)
                     (estaciones df_acumulados)))"

subsection \<open>Effects\<close>

text \<open>What a run does beyond computing: calls to the remote API, which answer from a world
  of type \<open>'w\<close> and change it, and a trace of the block announcements (the log line
  \<open>Descargando bloque desde ... hasta ...\<close>, written once per block), of the calls of
  \<open>time.sleep\<close> and of the files written under \<open>output_path\<close>. Writing a file is taken
  to succeed.\<close>

datatype archivo = RawBackup int | Lluvia30d int | LluviaLatest | ResumenLluvia

datatype evento = Bloque int int | Pausa nat | Escribe archivo

record 'w estado =
  mundo :: 'w
  traza :: "evento list"

text \<open>\<open>client.get\<close> returns a batch or raises; the source tells a connectivity error
  (\<open>timeout\<close> or \<open>connection\<close> in the message) from any other.\<close>

datatype respuesta = Lote "registro list" | ErrorConectividad | ErrorNoRecuperable

type_synonym 'w cliente = "'w \<Rightarrow> int \<Rightarrow> int \<Rightarrow> nat \<Rightarrow> respuesta \<times> 'w"

subsection \<open>Block Scheduler: \<open>obtener_datos_lluvia_masivos\<close>\<close>

definition limit :: nat where
  "limit = 2000"

definition block_size :: int where
  "block_size = 1"

definition max_retries :: nat where
  "max_retries = 3"

text \<open>The loop \<open>while True\<close> over the pages of one block. It ends at an empty batch, at the
  fifth connectivity error or at another error; against an API that always answers with
  records it does not end, and the result is \<open>None\<close>.\<close>

partial_function (option) descargar_lotes ::
  "'w cliente \<Rightarrow> int \<Rightarrow> int \<Rightarrow> nat \<Rightarrow> registro list \<Rightarrow> nat \<Rightarrow> 'w \<Rightarrow> (registro list \<times> 'w) option" where
  "descargar_lotes client start_str end_str offset block_data batch_errors w =
     (case client w start_str end_str offset of
        (Lote batch, w') \<Rightarrow>
          if batch = [] then Some (block_data, w')
          else descargar_lotes client start_str end_str (offset + limit) (block_data @ batch)
                 batch_errors w'
      | (ErrorConectividad, w') \<Rightarrow>
          if batch_errors + 1 < 5
          then descargar_lotes client start_str end_str (offset + limit) block_data
                 (batch_errors + 1) w'
          else Some (block_data, w')
      | (ErrorNoRecuperable, w') \<Rightarrow> Some (block_data, w'))"

declare descargar_lotes.simps [code]

text \<open>The loop \<open>while retry_count <= max_retries and not block_success\<close>; it returns
  \<open>block_success\<close> and \<open>block_data\<close>.\<close>

function intentar_bloque ::
  "'w cliente \<Rightarrow> int \<Rightarrow> int \<Rightarrow> nat \<Rightarrow> 'w estado \<Rightarrow> (bool \<times> registro list \<times> 'w estado) option" where
  "intentar_bloque client start_str end_str retry_count st =
     (if retry_count \<le> max_retries
      then
        let st1 = (if retry_count > 0 then st
                   else st\<lparr>traza := traza st @ [Bloque start_str end_str]\<rparr>)
        in case descargar_lotes client start_str end_str 0 [] 0 (mundo st1) of
             None \<Rightarrow> None
           | Some (block_data, w') \<Rightarrow>
               if block_data \<noteq> [] then Some (True, block_data, st1\<lparr>mundo := w'\<rparr>)
               else intentar_bloque client start_str end_str (retry_count + 1)
                      (if retry_count + 1 \<le> max_retries
                       then st1\<lparr>mundo := w', traza := traza st1 @ [Pausa 5]\<rparr>
                       else st1\<lparr>mundo := w'\<rparr>)
      else Some (False, [], st))"
  by pat_completeness auto
termination
  by (relation "measure (\<lambda>(client, s, e, retry_count, st). Suc max_retries - retry_count)") auto

declare intentar_bloque.simps [simp del]

text \<open>The loop \<open>while current_start < end_time\<close> over the blocks.\<close>

function descargar_bloques ::
  "'w cliente \<Rightarrow> int \<Rightarrow> int \<Rightarrow> registro list \<Rightarrow> (int \<times> int) list \<Rightarrow> 'w estado
     \<Rightarrow> (registro list \<times> (int \<times> int) list \<times> 'w estado) option" where
  "descargar_bloques client current_start end_time all_data failed_blocks st =
     (if current_start < end_time
      then
        let current_end = min (current_start + 86400 * block_size) end_time
        in case intentar_bloque client current_start current_end 0 st of
             None \<Rightarrow> None
           | Some (block_success, block_data, st') \<Rightarrow>
               descargar_bloques client current_end end_time
                 (if block_success then all_data @ block_data else all_data)
                 (if \<not> block_success then failed_blocks @ [(current_start, current_end)]
                  else failed_blocks)
                 st'
      else Some (all_data, failed_blocks, st))"
  by pat_completeness auto
termination
  by (relation "measure (\<lambda>(client, current_start, end_time, all_data, failed_blocks, st).
                           nat (end_time - current_start))")
     (auto simp: block_size_def)

declare descargar_bloques.simps [simp del]

text \<open>\<open>(end_time - start).days + 1\<close>: the days of a \<open>timedelta\<close> are its whole days,
  rounded down.\<close>

definition total_days :: "int \<Rightarrow> int \<Rightarrow> int" where
  "total_days fecha_inicio end_time = (end_time - fecha_inicio) div 86400 + 1"

definition failed_days :: "(int \<times> int) list \<Rightarrow> int" where
  "failed_days failed_blocks = int (length failed_blocks) * block_size"

definition success_percentage :: "int \<Rightarrow> int \<Rightarrow> real" where
  "success_percentage dias_total dias_fallidos =
     (real_of_int (dias_total - dias_fallidos) / real_of_int dias_total) * 100"

definition obtener_datos_lluvia_masivos ::
  "'w cliente \<Rightarrow> int \<Rightarrow> int \<Rightarrow> 'w estado \<Rightarrow> ((error + registro list \<times> real) \<times> 'w estado) option" where
  "obtener_datos_lluvia_masivos client fecha_inicio fecha_fin st =
     (case descargar_bloques client fecha_inicio fecha_fin [] [] st of
        None \<Rightarrow> None
      | Some (all_data, failed_blocks, st') \<Rightarrow>
          if total_days fecha_inicio fecha_fin = 0 then Some (Inl DivisionPorCero, st')
          else Some (Inr (all_data,
                          success_percentage (total_days fecha_inicio fecha_fin)
                            (failed_days failed_blocks)), st'))"

subsection \<open>Spatial Filter: \<open>cargar_region\<close> and \<open>filtrar_region_andina\<close>\<close>

text \<open>A geometry is the set of the points \<open>(longitud, latitud)\<close> that shapely reports as
  within it; the union of the member polygons holds the points within one of them. The
  region is \<open>None\<close> when reading the shapefile or reprojecting it raises.\<close>

type_synonym geometria = "real \<times> real \<Rightarrow> bool"

definition union_all :: "geometria list \<Rightarrow> geometria" where
  "union_all gs p = list_ex (\<lambda>g. g p) gs"

definition cargar_region :: "geometria list option \<Rightarrow> error + geometria list" where
  "cargar_region region = (case region of None \<Rightarrow> Inl ErrorCargandoRegion | Some g \<Rightarrow> Inr g)"

definition chunk_size :: nat where
  "chunk_size = 50000"

text \<open>The slices \<open>iloc[i:i+n]\<close> for \<open>i\<close> in \<open>range(0, len, n)\<close>.\<close>

function trozos :: "nat \<Rightarrow> 'a list \<Rightarrow> 'a list list" where
  "trozos n xs = (if n = 0 \<or> xs = [] then [] else take n xs # trozos n (drop n xs))"
  by pat_completeness auto
termination
  by (relation "measure (\<lambda>(n, xs). length xs)") auto

declare trozos.simps [simp del]

definition dentro :: "geometria \<Rightarrow> registro \<Rightarrow> bool" where
  "dentro g r =
     (case (longitud r, latitud r) of (Some x, Some y) \<Rightarrow> g (x, y) | _ \<Rightarrow> False)"

definition filtrar_region_andina :: "geometria list option \<Rightarrow> registro list \<Rightarrow> error + registro list" where
  "filtrar_region_andina region df_nrt =
     (case cargar_region region of
        Inl e \<Rightarrow> Inl e
      | Inr region_andina \<Rightarrow>
          let df_validas = filter (\<lambda>r. latitud r \<noteq> None \<and> longitud r \<noteq> None) df_nrt;
              resultados_filtrados =
                filter (\<lambda>chunk_filtrado. chunk_filtrado \<noteq> [])
                  (map (filter (dentro (union_all region_andina))) (trozos chunk_size df_validas))
          in Inr (concat resultados_filtrados))"

subsection \<open>The run: \<open>procesar_datos_completos\<close>, \<open>guardar_resultados\<close> and \<open>main\<close>\<close>

definition days_back :: int where
  "days_back = 30"

definition max_complete_retries :: nat where
  "max_complete_retries = 2"

definition min_coverage :: real where
  "min_coverage = 70"

text \<open>The backup of the raw records, inside \<open>try\<close>: without a record or without a date the
  source logs a warning and writes nothing.\<close>

definition guardar_respaldo :: "registro list \<Rightarrow> 'w estado \<Rightarrow> 'w estado" where
  "guardar_respaldo all_data st =
     (case List.map_filter fechaobservacion all_data of
        [] \<Rightarrow> st
      | t # ts \<Rightarrow> st\<lparr>traza := traza st @ [Escribe (RawBackup (maximo (t # ts) div 86400))]\<rparr>)"

text \<open>The three ways out of the loop \<open>for attempt in range(max_complete_retries + 1)\<close>: the
  \<open>break\<close> of an acceptable coverage, the \<open>break\<close> of a reduced one, and the \<open>raise\<close>.
  Each is returned with \<open>all_data\<close> and \<open>success_percentage\<close> of the last retrieval.\<close>

datatype decision = Aceptable | Reducida | Insuficiente

function descarga_con_reintentos ::
  "'w cliente \<Rightarrow> int \<Rightarrow> int \<Rightarrow> nat \<Rightarrow> 'w estado
     \<Rightarrow> ((error + decision \<times> registro list \<times> real) \<times> 'w estado) option" where
  "descarga_con_reintentos client fecha_inicio_str fecha_fin_str attempt st =
     (let st1 = (if attempt > 0 then st\<lparr>traza := traza st @ [Pausa 10]\<rparr> else st)
      in case obtener_datos_lluvia_masivos client fecha_inicio_str fecha_fin_str st1 of
           None \<Rightarrow> None
         | Some (Inl e, st2) \<Rightarrow> Some (Inl e, st2)
         | Some (Inr (all_data, pct), st2) \<Rightarrow>
             if pct \<ge> min_coverage
             then Some (Inr (Aceptable, all_data, pct), guardar_respaldo all_data st2)
             else if attempt < max_complete_retries
             then descarga_con_reintentos client fecha_inicio_str fecha_fin_str (attempt + 1) st2
             else if pct \<ge> 50 \<and> all_data \<noteq> []
             then Some (Inr (Reducida, all_data, pct), guardar_respaldo all_data st2)
             else Some (Inr (Insuficiente, all_data, pct), st2))"
  by pat_completeness auto
termination
  by (relation "measure (\<lambda>(client, fi, ff, attempt, st). max_complete_retries - attempt)") auto

declare descarga_con_reintentos.simps [simp del]

text \<open>What a run finds around it: whether the two shapefiles exist, the region and the
  station registry as read from them, the API client, and the day number of today.\<close>

record 'w entorno =
  archivos_entrada :: bool
  region :: "geometria list option"
  shape :: "shape_estaciones option"
  client :: "'w cliente"
  hoy :: int

text \<open>\<open>procesar_lluvia_diaria\<close>; \<open>validar_datos_lluvia\<close> only logs.\<close>

definition procesar_lluvia_diaria ::
  "ordenacion \<Rightarrow> shape_estaciones option \<Rightarrow> registro list \<Rightarrow> error + fila_modelo list" where
  "procesar_lluvia_diaria ordenar sh gdf_nrt_andina =
     (case control_calidad_datos sh (lluvia_diaria_agrupada gdf_nrt_andina) of
        Inl e \<Rightarrow> Inl e
      | Inr filtrado \<Rightarrow> generar_formato_modelo ordenar filtrado)"

definition procesar_datos_completos ::
  "ordenacion \<Rightarrow> 'w entorno \<Rightarrow> 'w estado \<Rightarrow> ((error + fila_modelo list) \<times> 'w estado) option" where
  "procesar_datos_completos ordenar ent st =
     (if \<not> archivos_entrada ent then Some (Inl ArchivosNoDisponibles, st)
      else
        let end_time = hoy ent * 86400 + 86399;
            start_time = (hoy ent - days_back) * 86400
        in case descarga_con_reintentos (client ent) start_time end_time 0 st of
             None \<Rightarrow> None
           | Some (Inl e, st') \<Rightarrow> Some (Inl e, st')
           | Some (Inr (d, all_data, pct), st') \<Rightarrow>
               if d = Insuficiente then Some (Inl CoberturaInsuficiente, st')
               else if all_data = [] then Some (Inl SinDatosAPI, st')
               else if List.map_filter fechaobservacion all_data = []
               then Some (Inl FechaInvalida, st')
               else Some (case filtrar_region_andina (region ent) all_data of
                            Inl e \<Rightarrow> Inl e
                          | Inr gdf_nrt_andina \<Rightarrow>
                              procesar_lluvia_diaria ordenar (shape ent) gdf_nrt_andina,
                          st'))"

definition guardar_resultados :: "fila_modelo list \<Rightarrow> 'w estado \<Rightarrow> (error + unit) \<times> 'w estado" where
  "guardar_resultados df_resultados st =
     (case df_resultados of
        [] \<Rightarrow> (Inl ErrorGuardando, st)
      | r # _ \<Rightarrow>
          (case data r of
             None \<Rightarrow> (Inl ErrorGuardando, st)
           | Some fecha_df \<Rightarrow>
               (Inr (),
                st\<lparr>traza := traza st @
                      [Escribe (Lluvia30d fecha_df), Escribe LluviaLatest, Escribe ResumenLluvia]\<rparr>)))"

text \<open>\<open>main\<close> returns the exit code.\<close>

definition main :: "ordenacion \<Rightarrow> 'w entorno \<Rightarrow> 'w estado \<Rightarrow> (nat \<times> 'w estado) option" where
  "main ordenar ent st =
     (case procesar_datos_completos ordenar ent st of
        None \<Rightarrow> None
      | Some (Inl e, st') \<Rightarrow> Some (1, st')
      | Some (Inr df_resultados, st') \<Rightarrow>
          (case guardar_resultados df_resultados st' of
             (Inl e, st'') \<Rightarrow> Some (1, st'')
           | (Inr u, st'') \<Rightarrow> Some (0, st'')))"

subsection \<open>Projections and inputs used in the statements\<close>



text \<open>Two readings of station A001 on one day, an hour apart, whose municipality is spelt
  in two ways.\<close>

definition obs_medellin :: "string \<Rightarrow> int \<Rightarrow> real \<Rightarrow> registro" where
  "obs_medellin m t v =
     \<lparr>codigoestacion = ''A001'', municipio = Some m, departamento = Some ''ANTIOQUIA'',
      fechaobservacion = Some t, valorobservado = Some v, latitud = Some 6,
      longitud = Some (-75)\<rparr>"

definition ejemplo_dos_municipios :: "registro list" where
  "ejemplo_dos_municipios = [obs_medellin ''MEDELLIN'' 3600 1, obs_medellin ''Medellin'' 7200 2]"

text \<open>The columns of a daily row other than the locality.\<close>

definition sin_localidad :: "fila_diaria \<Rightarrow> string \<times> int \<times> real" where
  "sin_localidad r = (codigoestacion r, fecha r, lluvia_diaria r)"

text \<open>The dates on which a station has a row of a table.\<close>

definition fechas_estacion :: "string \<Rightarrow> 'a con_fecha_scheme list \<Rightarrow> int list" where
  "fechas_estacion e df = map fecha (grupo_estacion e df)"

text \<open>Daily rows and tables for the concrete runs below. \<open>ejemplo_sin_ultimos4\<close>: station A
  reports on the days 1 to 20, station B on the days 1 to 16 only.\<close>

definition fila :: "string \<Rightarrow> int \<Rightarrow> real \<Rightarrow> fila_diaria" where
  "fila e f v = \<lparr>codigoestacion = e, municipio = Some ''M'', departamento = Some ''D'',
     fecha = f, lluvia_diaria = v\<rparr>"

definition serie :: "string \<Rightarrow> int list \<Rightarrow> fila_diaria list" where
  "serie e fs = map (\<lambda>f. fila e f 1) fs"

definition ejemplo_sin_ultimos4 :: "fila_diaria list" where
  "ejemplo_sin_ultimos4 =
     serie ''A'' [1, 2, 3, 4, 5, 6, 7, 8, 9, 10, 11, 12, 13, 14, 15, 16, 17, 18, 19, 20]
     @ serie ''B'' [1, 2, 3, 4, 5, 6, 7, 8, 9, 10, 11, 12, 13, 14, 15, 16]"

definition acum :: "string \<Rightarrow> int \<Rightarrow> nat \<Rightarrow> real \<Rightarrow> fila_acumulado" where
  "acum e f d v = \<lparr>codigoestacion = e, municipio = Some ''M'', departamento = Some ''D'',
     fecha = f, dias_acumulados = d, lluvia_acumulada = v\<rparr>"

text \<open>The window of station \<open>e\<close> as \<open>generar_formato_modelo\<close> computes it on the table \<open>df\<close>
  (the variable \<open>datos_est\<close> of the loop), and the sum \<open>datos_sin_dia0.head(dias)\<close> over it.\<close>

definition ventana_estacion :: "ordenacion \<Rightarrow> fila_diaria list \<Rightarrow> string \<Rightarrow> fila_diaria list" where
  "ventana_estacion ordenar df e = datos_est ordenar (maximo (map fecha df)) (grupo_estacion e df)"

definition acumulado :: "nat \<Rightarrow> fila_diaria list \<Rightarrow> real" where
  "acumulado dias datos = sum_list (map lluvia_diaria (take dias (tl datos)))"

text \<open>The scenario of the specification: station A001 reports 10, 0, 5, 2 on four
  consecutive days, latest first.\<close>

definition ejemplo_a001 :: "fila_diaria list" where
  "ejemplo_a001 = [fila ''A001'' 1 2, fila ''A001'' 2 5, fila ''A001'' 3 0, fila ''A001'' 4 10]"

definition fila_a001 :: fila_modelo where
  "fila_a001 = \<lparr>codigoestacion = ''A001'', data = Some 4, daily_rain = Some 10, rain_1 = Some 0,
     rain_2 = Some 5, rain_3 = Some 7, rain_15 = Some 7, rain_30 = Some 7\<rparr>"

definition fila_modelo_unos :: "string \<Rightarrow> int \<Rightarrow> real \<Rightarrow> fila_modelo" where
  "fila_modelo_unos e f v30 = \<lparr>codigoestacion = e, data = Some f, daily_rain = Some 1, rain_1 = Some 1,
     rain_2 = Some 2, rain_3 = Some 3, rain_15 = Some 15, rain_30 = Some v30\<rparr>"

text \<open>The codes of the station registry, stripped as the source strips them.\<close>

definition codigos_registro :: "shape_estaciones \<Rightarrow> string list" where
  "codigos_registro sh = map (\<lambda>(c, m, d). strip c) sh"

text \<open>Station X reports on four days and its municipality is spelt in two ways; the registry
  \<open>registro_sin_x\<close> has no entry for X.\<close>

definition fila_x :: "int \<Rightarrow> string option \<Rightarrow> string option \<Rightarrow> fila_diaria" where
  "fila_x f m d = \<lparr>codigoestacion = ''X'', municipio = m, departamento = d, fecha = f,
     lluvia_diaria = 1\<rparr>"

definition ejemplo_inconsistente :: "fila_diaria list" where
  "ejemplo_inconsistente =
     [fila_x 1 (Some ''BELLO'') (Some ''ANTIOQUIA''), fila_x 2 (Some ''BELLO'') (Some ''ANTIOQUIA''),
      fila_x 3 (Some ''Bello'') (Some ''ANTIOQUIA''), fila_x 4 (Some ''Bello'') (Some ''ANTIOQUIA'')]"

definition registro_sin_x :: shape_estaciones where
  "registro_sin_x = [(''Y'', Some ''ITAGUI'', Some ''ANTIOQUIA'')]"

text \<open>The window as the specification words it, in two readings: the station's rows of the
  30 calendar days that end at the station's own latest date, and the station's 30 latest
  rows; both latest first.\<close>

definition ventana_propia :: "ordenacion \<Rightarrow> fila_diaria list \<Rightarrow> fila_diaria list" where
  "ventana_propia ordenar grupo =
     ordenar (filter (\<lambda>r. maximo (map fecha grupo) - 29 \<le> fecha r) grupo)"

definition ultimas_30_fechas :: "ordenacion \<Rightarrow> fila_diaria list \<Rightarrow> fila_diaria list" where
  "ultimas_30_fechas ordenar grupo = take 30 (ordenar grupo)"

text \<open>\<open>ejemplo_ventana\<close>: station A reports on the days 1 to 31, station B on the days 1 to
  27 only. \<open>ejemplo_sin_dia_16\<close>: station C reports on the days 1 to 31 except day 16.\<close>

definition ejemplo_ventana :: "fila_diaria list" where
  "ejemplo_ventana =
     serie ''A'' [1, 2, 3, 4, 5, 6, 7, 8, 9, 10, 11, 12, 13, 14, 15, 16, 17, 18, 19, 20, 21, 22,
                  23, 24, 25, 26, 27, 28, 29, 30, 31]
     @ serie ''B'' [1, 2, 3, 4, 5, 6, 7, 8, 9, 10, 11, 12, 13, 14, 15, 16, 17, 18, 19, 20, 21, 22,
                    23, 24, 25, 26, 27]"

definition ejemplo_sin_dia_16 :: "fila_diaria list" where
  "ejemplo_sin_dia_16 =
     serie ''C'' [1, 2, 3, 4, 5, 6, 7, 8, 9, 10, 11, 12, 13, 14, 15, 17, 18, 19, 20, 21, 22, 23,
                  24, 25, 26, 27, 28, 29, 30, 31]"

text \<open>The raw observations of station A001 on four days: one reading of 1 on each of the
  days 1, 2 and 3, and two readings on day 4, of 10 and of 3, whose municipality is spelt
  in two ways.\<close>

definition ejemplo_dia_repetido :: "registro list" where
  "ejemplo_dia_repetido =
     [obs_medellin ''MEDELLIN'' 90000 1, obs_medellin ''MEDELLIN'' 176400 1,
      obs_medellin ''MEDELLIN'' 262800 1, obs_medellin ''MEDELLIN'' 349200 10,
      obs_medellin ''Medellin'' 352800 3]"

definition fila_medellin :: "string \<Rightarrow> int \<Rightarrow> real \<Rightarrow> fila_diaria" where
  "fila_medellin m f v = \<lparr>codigoestacion = ''A001'', municipio = Some m,
     departamento = Some ''ANTIOQUIA'', fecha = f, lluvia_diaria = v\<rparr>"

definition diario_dia_repetido :: "string \<Rightarrow> fila_diaria list" where
  "diario_dia_repetido m =
     [fila_medellin ''MEDELLIN'' 1 1, fila_medellin ''MEDELLIN'' 2 1,
      fila_medellin ''MEDELLIN'' 3 1, fila_medellin ''MEDELLIN'' 4 10, fila_medellin m 4 3]"

text \<open>A station registry with an entry for A001.\<close>

definition registro_a001 :: shape_estaciones where
  "registro_a001 = [(''A001'', Some ''MEDELLIN'', Some ''ANTIOQUIA'')]"

text \<open>The row of the feature table for A001 on day 4, with \<open>daily rain\<close> \<open>v\<close> and the
  rain \<open>a\<close> of the row after day 0, followed by three rows of 1.\<close>

definition fila_dia_repetido :: "real \<Rightarrow> real \<Rightarrow> fila_modelo" where
  "fila_dia_repetido v a = \<lparr>codigoestacion = ''A001'', data = Some 4, daily_rain = Some v,
     rain_1 = Some a, rain_2 = Some (a + 1), rain_3 = Some (a + 2), rain_15 = Some (a + 3),
     rain_30 = Some (a + 3)\<rparr>"

text \<open>Readings of the trace: the block announcements, the events a retrieval can add (block
  announcements and pauses of 5 seconds), the files written, and which files are products of
  the Feature Builder rather than the backup of the raw records.\<close>

fun es_bloque :: "evento \<Rightarrow> bool" where
  "es_bloque (Bloque s e) = True"
| "es_bloque ev = False"

fun es_descarga :: "evento \<Rightarrow> bool" where
  "es_descarga (Bloque s e) = True"
| "es_descarga (Pausa n) = (n = 5)"
| "es_descarga (Escribe a) = False"

fun archivo_de :: "evento \<Rightarrow> archivo option" where
  "archivo_de (Escribe a) = Some a"
| "archivo_de ev = None"

definition archivos_escritos :: "evento list \<Rightarrow> archivo list" where
  "archivos_escritos tr = List.map_filter archivo_de tr"

fun es_producto :: "archivo \<Rightarrow> bool" where
  "es_producto (RawBackup f) = False"
| "es_producto a = True"

text \<open>The number of iterations of the loop over the blocks: the length of the range in
  days, rounded up.\<close>

definition num_bloques :: "int \<Rightarrow> int \<Rightarrow> int" where
  "num_bloques current_start end_time =
     (if current_start < end_time then (end_time - current_start + 86399) div 86400 else 0)"


text \<open>A remote API that holds, for every block, one record stamped with the start of the
  block and without coordinates, and the state before a run.\<close>

definition reg_sin_coordenadas :: "int \<Rightarrow> registro" where
  "reg_sin_coordenadas t =
     \<lparr>codigoestacion = ''A001'', municipio = Some ''M'', departamento = Some ''D'',
      fechaobservacion = Some t, valorobservado = Some 1, latitud = None, longitud = None\<rparr>"









text \<open>A region of one polygon that holds every point.\<close>

definition region_todo :: "geometria list" where
  "region_todo = [\<lambda>p. True]"

section \<open>Properties\<close>

subsection \<open>Daily Aggregator\<close>





subsection \<open>Quality Gate\<close>

lemma maximo_eq_Max: "xs \<noteq> [] \<Longrightarrow> maximo xs = Max (set xs)"
proof (cases xs)
  case Nil
  assume "xs \<noteq> []"
  with Nil show ?thesis by simp
next
  case (Cons a list)
  have "Max (set (a # list)) = fold max list a" by (rule Max.set_eq_fold)
  with Cons show ?thesis by (simp add: maximo_def)
qed

lemma nunique_card: "nunique xs = card (set xs)"
  by (simp add: nunique_def length_remdups_card_conv)

lemma set_estaciones [simp]: "set (estaciones df) = codigoestacion ` set df"
  by (simp add: estaciones_def)

lemma distinct_estaciones [simp]: "distinct (estaciones df)"
  by (simp add: estaciones_def)

lemma sorted_estaciones [simp]: "sorted (estaciones df)"
  by (simp add: estaciones_def)

lemma set_grupo_estacion [simp]:
  "set (grupo_estacion e df) = {r \<in> set df. codigoestacion r = e}"
  by (simp add: grupo_estacion_def)

lemma grupo_estacion_filter:
  "grupo_estacion e (filter (\<lambda>r. codigoestacion r \<notin> S) df) =
     (if e \<in> S then [] else grupo_estacion e df)"
  by (induction df) (auto simp: grupo_estacion_def)

lemma conteo_bajo:
  "map fst (filter (\<lambda>(e, n). n < k) (conteo_dias df)) =
     filter (\<lambda>e. nunique (map fecha (grupo_estacion e df)) < k) (estaciones df)"
  by (simp add: conteo_dias_def filter_map comp_def)

lemma in_conteo_bajo:
  "e \<in> set (map fst (filter (\<lambda>(e, n). n < k) (conteo_dias df))) \<longleftrightarrow>
     e \<in> codigoestacion ` set df \<and> nunique (map fecha (grupo_estacion e df)) < k"
  by (simp only: conteo_bajo set_filter set_estaciones) auto

lemma in_estaciones_a_excluir:
  "e \<in> set (estaciones_a_excluir df) \<longleftrightarrow>
     e \<in> codigoestacion ` set df \<and>
     nunique (map fecha (grupo_estacion e df)) < umbral_minimo_dias (nunique (map fecha df))"
  unfolding estaciones_a_excluir_def Let_def by (rule in_conteo_bajo)

lemma in_estaciones_incompletas:
  "e \<in> set (estaciones_incompletas completo) \<longleftrightarrow>
     (let u4 = filter (\<lambda>r. fecha r \<in> set (ultimos_dias (maximo (map fecha completo)))) completo
      in e \<in> codigoestacion ` set u4 \<and> nunique (map fecha (grupo_estacion e u4)) < 4)"
  unfolding estaciones_incompletas_def Let_def by (rule in_conteo_bajo)

lemma corregir_length [simp]:
  "length (corregir_inconsistencias_localidades sh df cs) = length df"
  by (simp add: corregir_inconsistencias_localidades_def split: option.splits)

lemma corregir_sin_localidad [simp]:
  "map sin_localidad (corregir_inconsistencias_localidades sh df cs) = map sin_localidad df"
  by (simp add: corregir_inconsistencias_localidades_def sin_localidad_def split: option.splits)

lemma fechas_de_sin_localidad:
  "map fecha (grupo_estacion e xs) =
     map (\<lambda>t. fst (snd t)) (filter (\<lambda>t. fst t = e) (map sin_localidad xs))"
  by (induction xs) (auto simp: grupo_estacion_def sin_localidad_def)

lemma sin_localidad_grupo_fechas:
  assumes "map sin_localidad xs = map sin_localidad ys"
  shows "map fecha (grupo_estacion e xs) = map fecha (grupo_estacion e ys)"
  by (simp only: fechas_de_sin_localidad assms)

lemma control_calidad_sin_localidad:
  assumes "control_calidad_datos sh df = Inr out"
  shows "map sin_localidad out = map sin_localidad (df_lluvia_filtrado (df_lluvia_completo df))"
  using assms by (auto simp: control_calidad_datos_def Let_def split: if_splits)

lemma control_calidad_Inr_iff:
  "(\<exists>out. control_calidad_datos sh df = Inr out) \<longleftrightarrow> df_lluvia_completo df \<noteq> []"
  by (auto simp: control_calidad_datos_def Let_def)

lemma card_ultimos_dias: "card (set (ultimos_dias f)) = 4"
  by (simp add: ultimos_dias_def)

lemma fechas_filtrado:
  "map fecha (grupo_estacion e (df_lluvia_filtrado (df_lluvia_completo df))) =
     (if e \<in> set (estaciones_incompletas (df_lluvia_completo df)) \<or> e \<in> set (estaciones_a_excluir df)
      then [] else map fecha (grupo_estacion e df))"
proof -
  have "grupo_estacion e (df_lluvia_filtrado (df_lluvia_completo df)) =
      (if e \<in> set (estaciones_incompletas (df_lluvia_completo df)) then []
       else grupo_estacion e (df_lluvia_completo df))"
    unfolding df_lluvia_filtrado_def by (rule grupo_estacion_filter)
  moreover have "grupo_estacion e (df_lluvia_completo df) =
      (if e \<in> set (estaciones_a_excluir df) then [] else grupo_estacion e df)"
    unfolding df_lluvia_completo_def by (rule grupo_estacion_filter)
  ultimately show ?thesis by simp
qed

text \<open>C2, as the code has it. A station with a row in the output of the Quality Gate has
  rows on at least \<open>floor(0.8 * T)\<close> distinct dates, where \<open>T\<close> is the number of distinct
  dates of the table the gate receives; and if it has a row on one of the last four calendar
  dates that end at the latest date of the table left by rule 1, it has rows on all four.\<close>

theorem control_calidad_cobertura:
  assumes "control_calidad_datos sh df = Inr out" and "r \<in> set out"
  shows "umbral_minimo_dias (nunique (map fecha df)) \<le> nunique (fechas_estacion (codigoestacion r) out)
    \<and> (set (fechas_estacion (codigoestacion r) out)
          \<inter> set (ultimos_dias (maximo (map fecha (df_lluvia_completo df)))) \<noteq> {}
        \<longrightarrow> set (ultimos_dias (maximo (map fecha (df_lluvia_completo df))))
              \<subseteq> set (fechas_estacion (codigoestacion r) out))"
proof -
  let ?e = "codigoestacion r"
  let ?comp = "df_lluvia_completo df"
  let ?ult = "ultimos_dias (maximo (map fecha ?comp))"
  let ?u4 = "filter (\<lambda>r. fecha r \<in> set ?ult) ?comp"
  have sl: "map sin_localidad out = map sin_localidad (df_lluvia_filtrado ?comp)"
    by (rule control_calidad_sin_localidad [OF assms(1)])
  have fo: "fechas_estacion ?e out = map fecha (grupo_estacion ?e (df_lluvia_filtrado ?comp))"
    unfolding fechas_estacion_def by (rule sin_localidad_grupo_fechas [OF sl])
  from assms(2) have "r \<in> set (grupo_estacion ?e out)" by simp
  then have "grupo_estacion ?e out \<noteq> []" by (metis empty_iff empty_set)
  then have "fechas_estacion ?e out \<noteq> []" unfolding fechas_estacion_def by simp
  with fo have ne: "?e \<notin> set (estaciones_a_excluir df)"
    and ni: "?e \<notin> set (estaciones_incompletas ?comp)"
    and eq: "fechas_estacion ?e out = map fecha (grupo_estacion ?e df)"
    by (auto simp: fechas_filtrado split: if_splits)
  from eq have "grupo_estacion ?e df \<noteq> []" using \<open>fechas_estacion ?e out \<noteq> []\<close> by auto
  then obtain x0 where "x0 \<in> set df" "codigoestacion x0 = ?e"
    by (auto simp: grupo_estacion_def filter_empty_conv)
  then have "?e \<in> codigoestacion ` set df" by (metis imageI)
  with ne have 1: "umbral_minimo_dias (nunique (map fecha df)) \<le> nunique (fechas_estacion ?e out)"
    by (simp add: in_estaciones_a_excluir eq)
  have 2: "set ?ult \<subseteq> set (fechas_estacion ?e out)"
    if "set (fechas_estacion ?e out) \<inter> set ?ult \<noteq> {}"
  proof -
    have gc: "grupo_estacion ?e ?comp = grupo_estacion ?e df"
      using ne by (simp add: df_lluvia_completo_def grupo_estacion_filter)
    from that eq obtain x where x: "x \<in> set df" "codigoestacion x = ?e" "fecha x \<in> set ?ult"
      by auto
    with gc have "x \<in> set ?comp" 
      by (metis (mono_tags, lifting) mem_Collect_eq set_grupo_estacion)
    with x have "x \<in> set ?u4" by simp
    with x(2) have "?e \<in> codigoestacion ` set ?u4" by (metis imageI)
    with ni have "4 \<le> nunique (map fecha (grupo_estacion ?e ?u4))"
      by (simp add: in_estaciones_incompletas Let_def)
    then have c4: "4 \<le> card (set (map fecha (grupo_estacion ?e ?u4)))"
      by (simp add: nunique_card)
    have sub: "set (map fecha (grupo_estacion ?e ?u4)) \<subseteq> set ?ult" by auto
    have "card (set (map fecha (grupo_estacion ?e ?u4))) \<le> card (set ?ult)"
      by (rule card_mono [OF _ sub]) simp
    with c4 have "card (set (map fecha (grupo_estacion ?e ?u4))) = card (set ?ult)"
      by (simp add: card_ultimos_dias)
    with sub have "set (map fecha (grupo_estacion ?e ?u4)) = set ?ult"
      by (intro card_subset_eq) simp_all
    moreover have "set (map fecha (grupo_estacion ?e ?u4)) \<subseteq> set (map fecha (grupo_estacion ?e ?comp))"
      by auto
    ultimately show ?thesis using gc eq by simp
  qed
  from 1 2 show ?thesis by blast
qed

subsection \<open>The run of \<open>ejemplo_sin_ultimos4\<close>, step by step\<close>

lemma fila_sel [simp]:
  "codigoestacion (fila e f v) = e" "fecha (fila e f v) = f" "lluvia_diaria (fila e f v) = v"
  "municipio (fila e f v) = Some ''M''" "departamento (fila e f v) = Some ''D''"
  by (simp_all add: fila_def)

lemma grupo_serie [simp]:
  "grupo_estacion e (serie e' fs) = (if e = e' then serie e' fs else [])"
  by (induction fs) (auto simp: grupo_estacion_def serie_def)

lemma grupo_append [simp]:
  "grupo_estacion e (xs @ ys) = grupo_estacion e xs @ grupo_estacion e ys"
  by (simp add: grupo_estacion_def)

lemma fecha_serie [simp]: "map fecha (serie e fs) = fs"
  by (simp add: serie_def comp_def)

lemma codigo_serie [simp]: "map codigoestacion (serie e fs) = replicate (length fs) e"
  by (induction fs) (simp_all add: serie_def)

lemma ej_estaciones: "estaciones ejemplo_sin_ultimos4 = [''A'', ''B'']"
  by (simp add: estaciones_def ejemplo_sin_ultimos4_def)

lemma ej_total_dias: "nunique (map fecha ejemplo_sin_ultimos4) = 20"
  by (simp add: nunique_def ejemplo_sin_ultimos4_def)

lemma ej_conteo_dias: "conteo_dias ejemplo_sin_ultimos4 = [(''A'', 20), (''B'', 16)]"
  by (simp add: conteo_dias_def ej_estaciones) (simp add: ejemplo_sin_ultimos4_def nunique_def)

lemma ej_a_excluir: "estaciones_a_excluir ejemplo_sin_ultimos4 = []"
  by (simp add: estaciones_a_excluir_def ej_total_dias ej_conteo_dias umbral_minimo_dias_def)

lemma ej_completo: "df_lluvia_completo ejemplo_sin_ultimos4 = ejemplo_sin_ultimos4"
  by (simp add: df_lluvia_completo_def ej_a_excluir)

lemma ej_fecha_final: "maximo (map fecha ejemplo_sin_ultimos4) = 20"
  by (simp add: maximo_def ejemplo_sin_ultimos4_def)

lemma ej_incompletas: "estaciones_incompletas ejemplo_sin_ultimos4 = []"
proof -
  have u4: "filter (\<lambda>r. fecha r \<in> set (ultimos_dias 20)) ejemplo_sin_ultimos4 =
      serie ''A'' [17, 18, 19, 20]"
    by (simp add: ultimos_dias_def ejemplo_sin_ultimos4_def serie_def)
  show ?thesis
    by (simp add: estaciones_incompletas_def ej_fecha_final u4 conteo_dias_def estaciones_def nunique_def)
qed

lemma ej_filtrado: "df_lluvia_filtrado ejemplo_sin_ultimos4 = ejemplo_sin_ultimos4"
  by (simp add: df_lluvia_filtrado_def ej_incompletas)

lemma mf_serie:
  "List.map_filter municipio (serie e fs) = replicate (length fs) ''M''"
  "List.map_filter departamento (serie e fs) = replicate (length fs) ''D''"
  by (induction fs) (simp_all add: serie_def List.map_filter_simps)

lemma ej_inconsistentes: "codigos_inconsistentes ejemplo_sin_ultimos4 = []"
  by (simp add: codigos_inconsistentes_def ej_estaciones) (simp add: ejemplo_sin_ultimos4_def mf_serie nunique_def)

lemma ej_control_calidad: "control_calidad_datos sh ejemplo_sin_ultimos4 = Inr ejemplo_sin_ultimos4"
proof -
  have "ejemplo_sin_ultimos4 \<noteq> []" by (simp add: ejemplo_sin_ultimos4_def serie_def)
  then show ?thesis by (simp add: control_calidad_datos_def ej_completo ej_filtrado ej_inconsistentes)
qed

lemma ej_ventana_A: "datos_est orden_estable 20 (serie ''A'' [1, 2, 3, 4, 5, 6, 7, 8, 9, 10, 11, 12, 13, 14, 15, 16, 17, 18, 19, 20])
   = serie ''A'' [20, 19, 18, 17, 16, 15, 14, 13, 12, 11, 10, 9, 8, 7, 6, 5, 4, 3, 2, 1]"
  by (simp add: datos_est_def orden_estable_def serie_def)

lemma ej_ventana_B: "datos_est orden_estable 20 (serie ''B'' [1, 2, 3, 4, 5, 6, 7, 8, 9, 10, 11, 12, 13, 14, 15, 16])
   = serie ''B'' [16, 15, 14, 13, 12, 11, 10, 9, 8, 7, 6, 5, 4, 3, 2, 1]"
  by (simp add: datos_est_def orden_estable_def serie_def)

lemma ej_resultados: "resultados orden_estable ejemplo_sin_ultimos4 =
   [acum ''A'' 20 0 1, acum ''A'' 19 1 1, acum ''A'' 18 2 2, acum ''A'' 17 3 3, acum ''A'' 5 15 15, acum ''A'' 1 30 19,
    acum ''B'' 16 0 1, acum ''B'' 15 1 1, acum ''B'' 14 2 2, acum ''B'' 13 3 3, acum ''B'' 1 15 15, acum ''B'' 1 30 15]"
  apply (simp add: resultados_def ej_estaciones ej_fecha_final)
  apply (simp add: ejemplo_sin_ultimos4_def ej_ventana_A ej_ventana_B)
  apply (simp add: filas_acumuladas_def serie_def ventanas_def fecha_corte_def acum_def)
  done

lemma ej_formato_modelo: "generar_formato_modelo orden_estable ejemplo_sin_ultimos4 =
   Inr [\<lparr>codigoestacion = ''A'', data = Some 20, daily_rain = Some 1, rain_1 = Some 1, rain_2 = Some 2,
          rain_3 = Some 3, rain_15 = Some 15, rain_30 = Some 19\<rparr>,
        \<lparr>codigoestacion = ''B'', data = Some 16, daily_rain = Some 1, rain_1 = Some 1, rain_2 = Some 2,
          rain_3 = Some 3, rain_15 = Some 15, rain_30 = Some 15\<rparr>]"
proof -
  have "ejemplo_sin_ultimos4 \<noteq> []" by (simp add: ejemplo_sin_ultimos4_def serie_def)
  then show ?thesis
    apply (simp add: generar_formato_modelo_def ej_resultados Let_def)
    apply (simp add: acum_def estaciones_def pivot_valor_def fecha_daily_def)
    done
qed

subsection \<open>Feature Builder\<close>

lemma codigo_filas_acumuladas:
  "a \<in> set (filas_acumuladas e d) \<Longrightarrow> codigoestacion a = e"
  by (cases d) (auto simp: filas_acumuladas_def)

lemma filas_acumuladas_Nil_iff [simp]: "filas_acumuladas e d = [] \<longleftrightarrow> d = []"
  by (cases d) (simp_all add: filas_acumuladas_def)

lemma dias_filas_acumuladas:
  "d \<noteq> [] \<Longrightarrow> map dias_acumulados (filas_acumuladas e d) = [0, 1, 2, 3, 15, 30]"
  by (cases d) (simp_all add: filas_acumuladas_def ventanas_def)

lemma find_filas_acumuladas_0:
  "d \<noteq> [] \<Longrightarrow>
   find (\<lambda>a. codigoestacion a = e \<and> dias_acumulados a = 0) (filas_acumuladas e d) =
     Some \<lparr>codigoestacion = e, municipio = municipio (hd d), departamento = departamento (hd d),
           fecha = fecha (hd d), dias_acumulados = 0, lluvia_acumulada = lluvia_diaria (hd d)\<rparr>"
  by (cases d) (simp_all add: filas_acumuladas_def)

lemma find_filas_acumuladas_ventana:
  "d \<noteq> [] \<Longrightarrow> k \<in> set ventanas \<Longrightarrow>
   map_option lluvia_acumulada
     (find (\<lambda>a. codigoestacion a = e \<and> dias_acumulados a = k) (filas_acumuladas e d)) =
     Some (acumulado k d)"
  by (cases d) (auto simp: filas_acumuladas_def ventanas_def acumulado_def)

lemma find_append:
  "find P (xs @ ys) = (case find P xs of None \<Rightarrow> find P ys | Some a \<Rightarrow> Some a)"
  by (induction xs) simp_all

lemma find_concat_bloques:
  assumes "\<And>e' a. a \<in> set (f e') \<Longrightarrow> codigoestacion a = e'"
  shows "find (\<lambda>a. codigoestacion a = e \<and> Q a) (concat (map f es)) =
     (if e \<in> set es then find (\<lambda>a. codigoestacion a = e \<and> Q a) (f e) else None)"
proof (induction es)
  case Nil
  then show ?case by simp
next
  case (Cons x es)
  show ?case
  proof (cases "x = e")
    case True
    then show ?thesis
      using Cons.IH by (simp add: find_append split: option.splits)
  next
    case False
    then have "find (\<lambda>a. codigoestacion a = e \<and> Q a) (f x) = None"
      using assms [of _ x] by (auto simp: find_None_iff)
    with False show ?thesis using Cons.IH by (simp add: find_append)
  qed
qed

lemma resultados_ventanas:
  "resultados ordenar df = concat (map (\<lambda>e. filas_acumuladas e (ventana_estacion ordenar df e)) (estaciones df))"
  by (simp add: resultados_def ventana_estacion_def)

lemma find_resultados:
  "find (\<lambda>a. codigoestacion a = e \<and> Q a) (resultados ordenar df) =
     (if e \<in> set (estaciones df)
      then find (\<lambda>a. codigoestacion a = e \<and> Q a) (filas_acumuladas e (ventana_estacion ordenar df e))
      else None)"
  unfolding resultados_ventanas
  by (rule find_concat_bloques) (rule codigo_filas_acumuladas)

lemma set_codigos_resultados:
  "codigoestacion ` set (resultados ordenar df) =
     {e \<in> set (estaciones df). ventana_estacion ordenar df e \<noteq> []}"
proof -
  have "codigoestacion ` set (filas_acumuladas e d) = (if d = [] then {} else {e})" for e d
    by (cases d) (auto simp: filas_acumuladas_def)
  then show ?thesis
    unfolding resultados_ventanas by (auto simp: image_UN split: if_splits)
qed

lemma estaciones_resultados:
  "estaciones (resultados ordenar df) = filter (\<lambda>e. ventana_estacion ordenar df e \<noteq> []) (estaciones df)"
proof (rule sorted_distinct_set_unique)
  show "set (estaciones (resultados ordenar df)) =
      set (filter (\<lambda>e. ventana_estacion ordenar df e \<noteq> []) (estaciones df))"
    using set_codigos_resultados [of ordenar df] by auto
qed (simp_all add: sorted_wrt_filter)

lemma pivot_valor_resultados:
  assumes "e \<in> set (estaciones df)" and "ventana_estacion ordenar df e \<noteq> []"
  shows "pivot_valor (resultados ordenar df) e 0 = Some (lluvia_diaria (hd (ventana_estacion ordenar df e)))"
    and "fecha_daily (resultados ordenar df) e = Some (fecha (hd (ventana_estacion ordenar df e)))"
    and "k \<in> set ventanas \<Longrightarrow> pivot_valor (resultados ordenar df) e k = Some (acumulado k (ventana_estacion ordenar df e))"
  using assms
  by (simp_all add: pivot_valor_def fecha_daily_def find_resultados find_filas_acumuladas_0
      find_filas_acumuladas_ventana)

lemma generar_formato_modelo_filas:
  assumes "generar_formato_modelo ordenar df = Inr out"
  shows "out = map (\<lambda>e.
           \<lparr>codigoestacion = e,
            data = Some (fecha (hd (ventana_estacion ordenar df e))),
            daily_rain = Some (lluvia_diaria (hd (ventana_estacion ordenar df e))),
            rain_1 = Some (acumulado 1 (ventana_estacion ordenar df e)),
            rain_2 = Some (acumulado 2 (ventana_estacion ordenar df e)),
            rain_3 = Some (acumulado 3 (ventana_estacion ordenar df e)),
            rain_15 = Some (acumulado 15 (ventana_estacion ordenar df e)),
            rain_30 = Some (acumulado 30 (ventana_estacion ordenar df e))\<rparr>)
         (filter (\<lambda>e. ventana_estacion ordenar df e \<noteq> []) (estaciones df))"
proof -
  from assms have out: "out = map (\<lambda>e.
                       \<lparr>codigoestacion = e,
                        data = fecha_daily (resultados ordenar df) e,
                        daily_rain = pivot_valor (resultados ordenar df) e 0,
                        rain_1 = pivot_valor (resultados ordenar df) e 1,
                        rain_2 = pivot_valor (resultados ordenar df) e 2,
                        rain_3 = pivot_valor (resultados ordenar df) e 3,
                        rain_15 = pivot_valor (resultados ordenar df) e 15,
                        rain_30 = pivot_valor (resultados ordenar df) e 30\<rparr>)
                     (estaciones (resultados ordenar df))"
    by (simp add: generar_formato_modelo_def Let_def split: if_splits)
  show ?thesis
    unfolding out estaciones_resultados
    by (rule map_cong [OF refl]) (simp add: pivot_valor_resultados ventanas_def)
qed

lemma sorted_hd_le: "sorted xs \<Longrightarrow> x \<in> set xs \<Longrightarrow> hd xs \<le> x"
  by (cases xs) auto

lemma orden_estable_descendente: "orden_descendente orden_estable"
  by (simp add: orden_descendente_def orden_estable_def)

lemma datos_est_sorted:
  "orden_descendente ordenar \<Longrightarrow> sorted (map (\<lambda>r. - fecha r) (datos_est ordenar ff g))"
  by (simp add: datos_est_def orden_descendente_def)

lemma datos_est_mset:
  "orden_descendente ordenar \<Longrightarrow>
   mset (datos_est ordenar ff g) = filter_mset (\<lambda>r. ff - 29 \<le> fecha r) (mset g)"
  by (simp add: datos_est_def orden_descendente_def)

lemma datos_est_set:
  assumes "orden_descendente ordenar"
  shows "set (datos_est ordenar ff g) = {r \<in> set g. ff - 29 \<le> fecha r}"
proof -
  have "set (datos_est ordenar ff g) = set_mset (mset (datos_est ordenar ff g))" by simp
  also have "\<dots> = {r \<in> set g. ff - 29 \<le> fecha r}"
    unfolding datos_est_mset [OF assms] by simp
  finally show ?thesis .
qed

lemma hd_datos_est_mas_reciente:
  assumes ord: "orden_descendente ordenar" and "datos_est ordenar ff g \<noteq> []"
  shows "fecha (hd (datos_est ordenar ff g)) = Max (fecha ` set g)"
proof (rule sym, rule Max_eqI)
  let ?d = "datos_est ordenar ff g"
  from assms have hd_in: "hd ?d \<in> set ?d" by simp
  then have hd_g: "hd ?d \<in> set g" and hd_w: "ff - 29 \<le> fecha (hd ?d)"
    by (simp_all add: datos_est_set [OF ord])
  show "finite (fecha ` set g)" by simp
  show "fecha (hd ?d) \<in> fecha ` set g" using hd_g by (rule imageI)
  fix y assume "y \<in> fecha ` set g"
  then obtain r where r: "r \<in> set g" "y = fecha r" by auto
  show "y \<le> fecha (hd ?d)"
  proof (cases "ff - 29 \<le> fecha r")
    case True
    with r have "- fecha r \<in> set (map (\<lambda>r. - fecha r) ?d)"
      by (auto simp: datos_est_set [OF ord])
    with datos_est_sorted [OF ord, of ff g] have "hd (map (\<lambda>r. - fecha r) ?d) \<le> - fecha r"
      by (rule sorted_hd_le)
    with assms r show ?thesis by (simp add: hd_map)
  next
    case False
    with hd_w r show ?thesis by simp
  qed
qed

lemma distinct_claves_bloques:
  assumes "\<And>e' a. a \<in> set (f e') \<Longrightarrow> codigoestacion a = e'"
    and "\<And>e'. distinct (map dias_acumulados (f e'))"
    and "distinct es"
  shows "distinct (map (\<lambda>a. (codigoestacion a, dias_acumulados a)) (concat (map f es)))"
  using assms(3)
proof (induction es)
  case Nil
  then show ?case by simp
next
  case (Cons x es)
  have 1: "distinct (map (\<lambda>a. (codigoestacion a, dias_acumulados a)) (f x))"
    using assms(2) [of x] by (auto simp: distinct_map inj_on_def)
  have 2: "codigoestacion a \<noteq> x" if "a \<in> set (concat (map f es))" for a
    using that Cons.prems assms(1) by auto
  from 1 2 Cons show ?case
    using assms(1) [of _ x] by (auto simp: image_iff)
qed

lemma filas_acumuladas_Nil [simp]: "filas_acumuladas e [] = []"
  by (simp add: filas_acumuladas_def)

lemma distinct_claves_resultados:
  "distinct (map (\<lambda>a. (codigoestacion a, dias_acumulados a)) (resultados ordenar df))"
  unfolding resultados_ventanas
proof (rule distinct_claves_bloques)
  show "distinct (map dias_acumulados (filas_acumuladas e' (ventana_estacion ordenar df e')))" for e'
    by (cases "ventana_estacion ordenar df e' = []") (simp_all add: dias_filas_acumuladas)
qed (simp_all add: codigo_filas_acumuladas)

lemma maximo_in: "xs \<noteq> [] \<Longrightarrow> maximo xs \<in> set xs"
  by (simp add: maximo_eq_Max)

lemma ventana_del_maximo:
  assumes ord: "orden_descendente ordenar" and "df \<noteq> []"
  shows "\<exists>e \<in> set (estaciones df). ventana_estacion ordenar df e \<noteq> []"
proof -
  from assms have "maximo (map fecha df) \<in> set (map fecha df)" by (intro maximo_in) simp
  then obtain r where r: "r \<in> set df" "fecha r = maximo (map fecha df)" by auto
  then have "r \<in> set (ventana_estacion ordenar df (codigoestacion r))"
    by (simp add: ventana_estacion_def datos_est_set [OF ord])
  then have "ventana_estacion ordenar df (codigoestacion r) \<noteq> []" by (metis empty_iff empty_set)
  moreover from r have "codigoestacion r \<in> set (estaciones df)" by simp
  ultimately show ?thesis by blast
qed

lemma generar_formato_modelo_Inr:
  assumes "orden_descendente ordenar" and "df \<noteq> []"
  shows "\<exists>out. generar_formato_modelo ordenar df = Inr out \<and> out \<noteq> []"
proof -
  from ventana_del_maximo [OF assms] have ne: "estaciones (resultados ordenar df) \<noteq> []"
    by (auto simp: estaciones_resultados filter_empty_conv)
  then have "resultados ordenar df \<noteq> []" by (auto simp: estaciones_def)
  with ne show ?thesis
    by (simp add: generar_formato_modelo_def Let_def assms distinct_claves_resultados)
qed

lemma generar_formato_modelo_Inl_iff:
  assumes "orden_descendente ordenar"
  shows "generar_formato_modelo ordenar df = Inl e \<longleftrightarrow> df = [] \<and> e = SinDatosModelo"
  using generar_formato_modelo_Inr [OF assms, of df]
  by (cases "df = []") (auto simp: generar_formato_modelo_def)

text \<open>What a row of the feature table holds, for every sort of the kind above: the window
  of its station is not empty and starts at a row of the station's most recent date;
  \<open>daily rain\<close> is the daily total of that first row, and the column of each horizon
  \<open>h\<close> in 1, 2, 3, 15, 30 is the sum of the daily totals of the \<open>h\<close> rows that follow the
  first row in the window, or of all of them when there are fewer.\<close>

lemma filas_de_la_ventana:
  assumes ord: "orden_descendente ordenar"
    and "generar_formato_modelo ordenar df = Inr out" and "fm \<in> set out"
  shows "ventana_estacion ordenar df (codigoestacion fm) \<noteq> []
    \<and> fecha (hd (ventana_estacion ordenar df (codigoestacion fm)))
        = Max (fecha ` set (grupo_estacion (codigoestacion fm) df))
    \<and> daily_rain fm = Some (lluvia_diaria (hd (ventana_estacion ordenar df (codigoestacion fm))))
    \<and> rain_1 fm = Some (acumulado 1 (ventana_estacion ordenar df (codigoestacion fm)))
    \<and> rain_2 fm = Some (acumulado 2 (ventana_estacion ordenar df (codigoestacion fm)))
    \<and> rain_3 fm = Some (acumulado 3 (ventana_estacion ordenar df (codigoestacion fm)))
    \<and> rain_15 fm = Some (acumulado 15 (ventana_estacion ordenar df (codigoestacion fm)))
    \<and> rain_30 fm = Some (acumulado 30 (ventana_estacion ordenar df (codigoestacion fm)))"
proof -
  from assms(2,3) have ne: "ventana_estacion ordenar df (codigoestacion fm) \<noteq> []"
    and campos: "daily_rain fm = Some (lluvia_diaria (hd (ventana_estacion ordenar df (codigoestacion fm))))"
      "rain_1 fm = Some (acumulado 1 (ventana_estacion ordenar df (codigoestacion fm)))"
      "rain_2 fm = Some (acumulado 2 (ventana_estacion ordenar df (codigoestacion fm)))"
      "rain_3 fm = Some (acumulado 3 (ventana_estacion ordenar df (codigoestacion fm)))"
      "rain_15 fm = Some (acumulado 15 (ventana_estacion ordenar df (codigoestacion fm)))"
      "rain_30 fm = Some (acumulado 30 (ventana_estacion ordenar df (codigoestacion fm)))"
    by (auto simp: generar_formato_modelo_filas [OF assms(2)])
  from ne have "fecha (hd (ventana_estacion ordenar df (codigoestacion fm)))
        = Max (fecha ` set (grupo_estacion (codigoestacion fm) df))"
    unfolding ventana_estacion_def by (rule hd_datos_est_mas_reciente [OF ord])
  with ne campos show ?thesis by simp
qed

text \<open>The scenario of the specification, where the station has one row per date: four days
  with the values 10, 0, 5, 2, latest first, give \<open>daily rain\<close> 10 and the accumulations
  0, 5 and 7.\<close>

lemma ventana_a001:
  "ventana_estacion orden_estable ejemplo_a001 ''A001'' =
     [fila ''A001'' 4 10, fila ''A001'' 3 0, fila ''A001'' 2 5, fila ''A001'' 1 2]"
  by (simp add: ventana_estacion_def ejemplo_a001_def maximo_def grupo_estacion_def datos_est_def
      orden_estable_def)

lemma generar_a001: "generar_formato_modelo orden_estable ejemplo_a001 = Inr [fila_a001]"
proof -
  have "ejemplo_a001 \<noteq> []" by (simp add: ejemplo_a001_def)
  from generar_formato_modelo_Inr [OF orden_estable_descendente this] obtain out
    where out: "generar_formato_modelo orden_estable ejemplo_a001 = Inr out" by blast
  have e: "estaciones ejemplo_a001 = [''A001'']" by (simp add: estaciones_def ejemplo_a001_def)
  show ?thesis
    unfolding out generar_formato_modelo_filas [OF out]
    by (simp add: e ventana_a001 acumulado_def fila_a001_def)
qed

subsection \<open>Two rows for the most recent date\<close>

lemma rep_agrupada:
  "lluvia_diaria_agrupada ejemplo_dia_repetido = diario_dia_repetido ''Medellin''"
  by (simp add: lluvia_diaria_agrupada_def ejemplo_dia_repetido_def obs_medellin_def
      clave_grupo_def List.map_filter_simps strip_def espacio_def fila_de_grupo_def
      suma_grupo_def fila_medellin_def diario_dia_repetido_def)

lemma fila_medellin_sel [simp]:
  "codigoestacion (fila_medellin m f v) = ''A001''" "fecha (fila_medellin m f v) = f"
  "lluvia_diaria (fila_medellin m f v) = v" "municipio (fila_medellin m f v) = Some m"
  "departamento (fila_medellin m f v) = Some ''ANTIOQUIA''"
  by (simp_all add: fila_medellin_def)

lemma rep_estaciones: "estaciones (diario_dia_repetido m) = [''A001'']"
  by (simp add: estaciones_def diario_dia_repetido_def)

lemma rep_grupo: "grupo_estacion ''A001'' (diario_dia_repetido m) = diario_dia_repetido m"
  by (simp add: grupo_estacion_def diario_dia_repetido_def)

lemma rep_fechas: "map fecha (diario_dia_repetido m) = [1, 2, 3, 4, 4]"
  by (simp add: diario_dia_repetido_def)

lemma rep_completo: "df_lluvia_completo (diario_dia_repetido m) = diario_dia_repetido m"
  by (simp add: df_lluvia_completo_def estaciones_a_excluir_def conteo_dias_def rep_estaciones
      rep_grupo rep_fechas nunique_def umbral_minimo_dias_def)

lemma rep_filtrado: "df_lluvia_filtrado (diario_dia_repetido m) = diario_dia_repetido m"
proof -
  have u4: "filter (\<lambda>r. fecha r \<in> set (ultimos_dias 4)) (diario_dia_repetido m) = diario_dia_repetido m"
    by (simp add: ultimos_dias_def diario_dia_repetido_def)
  have "estaciones_incompletas (diario_dia_repetido m) = []"
    by (simp add: estaciones_incompletas_def rep_fechas maximo_def u4 conteo_dias_def rep_estaciones
        rep_grupo nunique_def)
  then show ?thesis by (simp add: df_lluvia_filtrado_def)
qed

lemma rep_codigos: "codigos_inconsistentes (diario_dia_repetido ''Medellin'') = [''A001'']"
  by (simp add: codigos_inconsistentes_def rep_estaciones rep_grupo)
    (simp add: diario_dia_repetido_def List.map_filter_simps nunique_def)

lemma rep_control_calidad:
  "control_calidad_datos None (diario_dia_repetido ''Medellin'') = Inr (diario_dia_repetido ''Medellin'')"
  "control_calidad_datos (Some registro_a001) (diario_dia_repetido ''Medellin'') =
     Inr (diario_dia_repetido ''MEDELLIN'')"
proof -
  have ne: "diario_dia_repetido ''Medellin'' \<noteq> []" by (simp add: diario_dia_repetido_def)
  then show "control_calidad_datos None (diario_dia_repetido ''Medellin'') = Inr (diario_dia_repetido ''Medellin'')"
    by (simp add: control_calidad_datos_def rep_completo rep_filtrado rep_codigos
        corregir_inconsistencias_localidades_def)
  have "corregir_inconsistencias_localidades (Some registro_a001) (diario_dia_repetido ''Medellin'')
      [''A001''] = diario_dia_repetido ''MEDELLIN''"
    by (simp add: corregir_inconsistencias_localidades_def diario_dia_repetido_def registro_a001_def
        dict_mpio_def_def dict_depto_def_def map_dict_def strip_def espacio_def fila_medellin_def)
  with ne show "control_calidad_datos (Some registro_a001) (diario_dia_repetido ''Medellin'') =
     Inr (diario_dia_repetido ''MEDELLIN'')"
    by (simp add: control_calidad_datos_def rep_completo rep_filtrado rep_codigos)
qed

lemma orden_dia_repetido:
  assumes ord: "orden_descendente ordenar"
    and f: "fecha a = 4" "fecha b = 4" "fecha c = 3" "fecha d = 2" "fecha e = 1" and ab: "a \<noteq> b"
  shows "ordenar [e, d, c, a, b] = [a, b, c, d, e] \<or> ordenar [e, d, c, a, b] = [b, a, c, d, e]"
proof -
  define w where "w = ordenar [e, d, c, a, b]"
  from ord have m: "mset w = mset [e, d, c, a, b]" and s: "sorted (map (\<lambda>r. - fecha r) w)"
    by (simp_all add: orden_descendente_def w_def)
  from m have "mset (map (\<lambda>r. - fecha r) w) = mset (map (\<lambda>r. - fecha r) [e, d, c, a, b])"
    by (metis mset_map)
  from properties_for_sort [OF this s] f have k: "map (\<lambda>r. - fecha r) w = [-4, -4, -3, -2, -1]"
    by simp
  from m have "length w = length [e, d, c, a, b]" by (rule mset_eq_length)
  then obtain w0 w1 w2 w3 w4 where w: "w = [w0, w1, w2, w3, w4]"
    by (auto simp: length_Suc_conv)
  from k have fw: "fecha w0 = 4" "fecha w1 = 4" "fecha w2 = 3" "fecha w3 = 2" "fecha w4 = 1"
    unfolding w by simp_all
  from m have "set w = set [e, d, c, a, b]" by (rule mset_eq_setD)
  then have el: "w0 \<in> {a, b, c, d, e}" "w1 \<in> {a, b, c, d, e}" "w2 \<in> {a, b, c, d, e}"
    "w3 \<in> {a, b, c, d, e}" "w4 \<in> {a, b, c, d, e}" unfolding w by auto
  from f ab have "distinct [e, d, c, a, b]" by auto
  with m have "distinct w" by (metis mset_eq_imp_distinct_iff)
  then have d01: "w0 \<noteq> w1" unfolding w by simp
  from el(1) fw(1) f have 0: "w0 = a \<or> w0 = b" by auto
  from el(2) fw(2) f have 1: "w1 = a \<or> w1 = b" by auto
  from el(3) fw(3) f have 2: "w2 = c" by auto
  from el(4) fw(4) f have 3: "w3 = d" by auto
  from el(5) fw(5) f have 4: "w4 = e" by auto
  from 0 1 d01 have "w0 = a \<and> w1 = b \<or> w0 = b \<and> w1 = a" by blast
  with 2 3 4 show ?thesis unfolding w_def [symmetric] w by simp
qed

lemma rep_ventana:
  assumes ord: "orden_descendente ordenar"
  shows "ventana_estacion ordenar (diario_dia_repetido m) ''A001'' =
           [fila_medellin ''MEDELLIN'' 4 10, fila_medellin m 4 3, fila_medellin ''MEDELLIN'' 3 1,
            fila_medellin ''MEDELLIN'' 2 1, fila_medellin ''MEDELLIN'' 1 1]
       \<or> ventana_estacion ordenar (diario_dia_repetido m) ''A001'' =
           [fila_medellin m 4 3, fila_medellin ''MEDELLIN'' 4 10, fila_medellin ''MEDELLIN'' 3 1,
            fila_medellin ''MEDELLIN'' 2 1, fila_medellin ''MEDELLIN'' 1 1]"
proof -
  have v: "ventana_estacion ordenar (diario_dia_repetido m) ''A001'' =
      ordenar [fila_medellin ''MEDELLIN'' 1 1, fila_medellin ''MEDELLIN'' 2 1,
        fila_medellin ''MEDELLIN'' 3 1, fila_medellin ''MEDELLIN'' 4 10, fila_medellin m 4 3]"
    unfolding ventana_estacion_def rep_grupo rep_fechas
    by (simp add: maximo_def datos_est_def diario_dia_repetido_def)
  have "fila_medellin ''MEDELLIN'' 4 10 \<noteq> fila_medellin m 4 3" by (simp add: fila_medellin_def)
  with orden_dia_repetido [OF ord, of "fila_medellin ''MEDELLIN'' 4 10" "fila_medellin m 4 3"
      "fila_medellin ''MEDELLIN'' 3 1" "fila_medellin ''MEDELLIN'' 2 1" "fila_medellin ''MEDELLIN'' 1 1"]
  show ?thesis unfolding v by simp
qed

lemma rep_formato_modelo:
  assumes ord: "orden_descendente ordenar"
  shows "generar_formato_modelo ordenar (diario_dia_repetido m) = Inr [fila_dia_repetido 10 3]
       \<or> generar_formato_modelo ordenar (diario_dia_repetido m) = Inr [fila_dia_repetido 3 10]"
proof -
  have "diario_dia_repetido m \<noteq> []" by (simp add: diario_dia_repetido_def)
  from generar_formato_modelo_Inr [OF ord this] obtain out
    where out: "generar_formato_modelo ordenar (diario_dia_repetido m) = Inr out" by blast
  from rep_ventana [OF ord, of m] show ?thesis
    unfolding out generar_formato_modelo_filas [OF out] rep_estaciones
    by (auto simp: acumulado_def fila_dia_repetido_def)
qed

text \<open>C1 against the code. Station A001 has one reading of 1 on each of the days 1, 2
  and 3, and two readings on day 4, of 10 and of 3, with the municipality spelt in two
  ways. The Daily Aggregator gives two rows for day 4 and the Quality Gate keeps both, with
  or without the station registry. The Feature Builder takes the rows one by one: whatever
  the order the sort gives the two rows of day 4, \<open>daily rain\<close> is the value of one of
  them, 10 or 3, and not the total 13 of the most recent date, and the other row of day 4
  is the first row of every accumulation, which are 3, 4, 5, 6, 6 or 10, 11, 12, 13, 13 and
  not 1, 2, 3, 3, 3.\<close>

theorem dia_0_en_acumulados:
  assumes "orden_descendente ordenar"
  shows "(procesar_lluvia_diaria ordenar None ejemplo_dia_repetido = Inr [fila_dia_repetido 10 3]
          \<or> procesar_lluvia_diaria ordenar None ejemplo_dia_repetido = Inr [fila_dia_repetido 3 10])
    \<and> (procesar_lluvia_diaria ordenar (Some registro_a001) ejemplo_dia_repetido
            = Inr [fila_dia_repetido 10 3]
          \<or> procesar_lluvia_diaria ordenar (Some registro_a001) ejemplo_dia_repetido
            = Inr [fila_dia_repetido 3 10])"
  using rep_formato_modelo [OF assms, of "''Medellin''"] rep_formato_modelo [OF assms, of "''MEDELLIN''"]
  by (simp add: procesar_lluvia_diaria_def rep_agrupada rep_control_calidad)

lemma rep_ventana_estable:
  "ventana_estacion orden_estable (diario_dia_repetido m) ''A001'' =
           [fila_medellin ''MEDELLIN'' 4 10, fila_medellin m 4 3, fila_medellin ''MEDELLIN'' 3 1,
            fila_medellin ''MEDELLIN'' 2 1, fila_medellin ''MEDELLIN'' 1 1]"
    unfolding ventana_estacion_def rep_grupo rep_fechas
    by (simp add: maximo_def datos_est_def diario_dia_repetido_def orden_estable_def)

theorem dia_0_en_acumulados_witness:
  "orden_descendente orden_estable
   \<and> lluvia_diaria_agrupada ejemplo_dia_repetido = diario_dia_repetido ''Medellin''
   \<and> ventana_estacion orden_estable (diario_dia_repetido ''Medellin'') ''A001'' =
       [fila_medellin ''MEDELLIN'' 4 10, fila_medellin ''Medellin'' 4 3,
        fila_medellin ''MEDELLIN'' 3 1, fila_medellin ''MEDELLIN'' 2 1,
        fila_medellin ''MEDELLIN'' 1 1]
   \<and> procesar_lluvia_diaria orden_estable None ejemplo_dia_repetido = Inr [fila_dia_repetido 10 3]
   \<and> procesar_lluvia_diaria orden_estable (Some registro_a001) ejemplo_dia_repetido
       = Inr [fila_dia_repetido 10 3]
   \<and> daily_rain (fila_dia_repetido 10 3) = Some 10
   \<and> rain_1 (fila_dia_repetido 10 3) = Some 3
   \<and> rain_30 (fila_dia_repetido 10 3) = Some 6"
proof -
  have g: "generar_formato_modelo orden_estable (diario_dia_repetido m) = Inr [fila_dia_repetido 10 3]" for m
  proof -
    have "diario_dia_repetido m \<noteq> []" by (simp add: diario_dia_repetido_def)
    from generar_formato_modelo_Inr [OF orden_estable_descendente this] obtain out
      where out: "generar_formato_modelo orden_estable (diario_dia_repetido m) = Inr out" by blast
    show ?thesis
      unfolding out generar_formato_modelo_filas [OF out] rep_estaciones
      by (simp add: rep_ventana_estable acumulado_def fila_dia_repetido_def)
  qed
  from dia_0_en_acumulados [OF orden_estable_descendente] show ?thesis
    by (simp add: orden_estable_descendente rep_agrupada rep_ventana_estable
        procesar_lluvia_diaria_def rep_control_calidad g)
      (simp add: fila_dia_repetido_def)
qed


lemma fechas_ejemplo:
  "fechas_estacion ''A'' ejemplo_sin_ultimos4 = [1, 2, 3, 4, 5, 6, 7, 8, 9, 10, 11, 12, 13, 14, 15, 16, 17, 18, 19, 20]"
  "fechas_estacion ''B'' ejemplo_sin_ultimos4 = [1, 2, 3, 4, 5, 6, 7, 8, 9, 10, 11, 12, 13, 14, 15, 16]"
  by (simp_all add: fechas_estacion_def ejemplo_sin_ultimos4_def)

theorem control_calidad_cobertura_witness:
  "control_calidad_datos None ejemplo_sin_ultimos4 = Inr ejemplo_sin_ultimos4
   \<and> fila ''A'' 20 1 \<in> set ejemplo_sin_ultimos4
   \<and> umbral_minimo_dias (nunique (map fecha ejemplo_sin_ultimos4)) = 16
   \<and> nunique (fechas_estacion ''A'' ejemplo_sin_ultimos4) = 20
   \<and> set (ultimos_dias (maximo (map fecha (df_lluvia_completo ejemplo_sin_ultimos4))))
       \<subseteq> set (fechas_estacion ''A'' ejemplo_sin_ultimos4)"
proof -
  have m: "fila ''A'' 20 1 \<in> set ejemplo_sin_ultimos4"
    by (simp add: ejemplo_sin_ultimos4_def serie_def)
  have i: "set (fechas_estacion ''A'' ejemplo_sin_ultimos4)
      \<inter> set (ultimos_dias (maximo (map fecha (df_lluvia_completo ejemplo_sin_ultimos4)))) \<noteq> {}"
    by (simp add: ej_completo ej_fecha_final fechas_ejemplo ultimos_dias_def)
  from control_calidad_cobertura [OF ej_control_calidad m] i m show ?thesis
    by (simp add: ej_control_calidad ej_total_dias umbral_minimo_dias_def) (simp add: fechas_ejemplo nunique_def)
qed

text \<open>C2 as stated fails on \<open>ejemplo_sin_ultimos4\<close>, whose 20 dates lie in an ingestion
  window of 31 days: station B stays in the output with 16 dates, fewer than
  \<open>floor(0.8 * 31) = 24\<close>, and without a row on any of the last four dates 17 to 20.\<close>

theorem control_calidad_cobertura_counterexample:
  "control_calidad_datos None ejemplo_sin_ultimos4 = Inr ejemplo_sin_ultimos4
   \<and> fila ''B'' 16 1 \<in> set ejemplo_sin_ultimos4
   \<and> total_days ((20 - days_back) * 86400) (20 * 86400 + 86399) = 31
   \<and> umbral_minimo_dias 31 = 24
   \<and> nunique (fechas_estacion ''B'' ejemplo_sin_ultimos4) = 16
   \<and> maximo (map fecha (df_lluvia_completo ejemplo_sin_ultimos4)) = 20
   \<and> set (fechas_estacion ''B'' ejemplo_sin_ultimos4) \<inter> set (ultimos_dias 20) = {}"
proof -
  have m: "fila ''B'' 16 1 \<in> set ejemplo_sin_ultimos4"
    by (simp add: ejemplo_sin_ultimos4_def serie_def)
  have t: "total_days ((20 - days_back) * 86400) (20 * 86400 + 86399) = 31"
    by (simp add: total_days_def days_back_def)
  from m t show ?thesis
    by (simp add: ej_control_calidad ej_completo ej_fecha_final umbral_minimo_dias_def) (simp add: fechas_ejemplo nunique_def ultimos_dias_def)
qed

text \<open>C9 against the code: on \<open>ejemplo_sin_ultimos4\<close> the Quality Gate keeps both stations
  and the feature table has the anchor date 20 for station A and 16 for station B.\<close>

theorem anclas_distintas:
  "control_calidad_datos None ejemplo_sin_ultimos4 = Inr ejemplo_sin_ultimos4
   \<and> generar_formato_modelo orden_estable ejemplo_sin_ultimos4 =
       Inr [fila_modelo_unos ''A'' 20 19, fila_modelo_unos ''B'' 16 15]
   \<and> data (fila_modelo_unos ''A'' 20 19) = Some 20
   \<and> data (fila_modelo_unos ''B'' 16 15) = Some 16"
  by (simp add: ej_control_calidad ej_formato_modelo fila_modelo_unos_def)

lemma dict_def_None:
  "dict_mpio_def sh e = None \<longleftrightarrow> e \<notin> set (codigos_registro sh)"
  "dict_depto_def sh e = None \<longleftrightarrow> e \<notin> set (codigos_registro sh)"
  by (force simp: dict_mpio_def_def dict_depto_def_def codigos_registro_def map_of_eq_None_iff)+

lemma corregir_sin_registro:
  assumes "r \<in> set (corregir_inconsistencias_localidades (Some reg) df cs)"
    and "codigoestacion r \<in> set cs" and "codigoestacion r \<notin> set (codigos_registro reg)"
  shows "municipio r = None \<and> departamento r = None"
proof -
  from assms(3) have "dict_mpio_def reg (codigoestacion r) = None"
    and "dict_depto_def reg (codigoestacion r) = None"
    by (simp_all add: dict_def_None)
  with assms(1,2) show ?thesis
    by (auto simp: corregir_inconsistencias_localidades_def map_dict_def split: if_splits)
qed

text \<open>C10. The Quality Gate neither adds nor removes a row when it reconciles the
  localities, whatever the registry holds: station, date and daily total of the rows stay
  as they are. When the registry was read, every row of a station that is flagged as
  inconsistent and whose code the registry lacks has its municipality and its department
  overwritten with the missing value.\<close>

theorem reconciliacion_sin_registro:
  assumes "control_calidad_datos sh df = Inr out"
  shows "map sin_localidad out = map sin_localidad (df_lluvia_filtrado (df_lluvia_completo df))
    \<and> (\<forall>reg r. sh = Some reg
          \<and> r \<in> set out
          \<and> codigoestacion r \<in> set (codigos_inconsistentes (df_lluvia_filtrado (df_lluvia_completo df)))
          \<and> codigoestacion r \<notin> set (codigos_registro reg)
        \<longrightarrow> municipio r = None \<and> departamento r = None)"
proof (rule conjI)
  show "map sin_localidad out = map sin_localidad (df_lluvia_filtrado (df_lluvia_completo df))"
    by (rule control_calidad_sin_localidad [OF assms])
next
  let ?f = "df_lluvia_filtrado (df_lluvia_completo df)"
  have "municipio r = None \<and> departamento r = None"
    if h: "sh = Some reg \<and> r \<in> set out \<and> codigoestacion r \<in> set (codigos_inconsistentes ?f)
    \<and> codigoestacion r \<notin> set (codigos_registro reg)" for reg r
  proof -
    from h have "codigos_inconsistentes ?f \<noteq> []" by auto
    with assms h
    have "out = corregir_inconsistencias_localidades (Some reg) ?f (codigos_inconsistentes ?f)"
      by (auto simp: control_calidad_datos_def Let_def split: if_splits)
    with h show ?thesis using corregir_sin_registro by blast
  qed
  then show "\<forall>reg r. sh = Some reg \<and> r \<in> set out
      \<and> codigoestacion r \<in> set (codigos_inconsistentes ?f)
      \<and> codigoestacion r \<notin> set (codigos_registro reg)
    \<longrightarrow> municipio r = None \<and> departamento r = None"
    by blast
qed

lemma inc_estaciones: "estaciones ejemplo_inconsistente = [''X'']"
  by (simp add: estaciones_def ejemplo_inconsistente_def fila_x_def)

lemma inc_grupo: "grupo_estacion ''X'' ejemplo_inconsistente = ejemplo_inconsistente"
  by (simp add: grupo_estacion_def ejemplo_inconsistente_def fila_x_def)

lemma inc_fechas: "map fecha ejemplo_inconsistente = [1, 2, 3, 4]"
  by (simp add: ejemplo_inconsistente_def fila_x_def)

lemma inc_completo: "df_lluvia_completo ejemplo_inconsistente = ejemplo_inconsistente"
  by (simp add: df_lluvia_completo_def estaciones_a_excluir_def conteo_dias_def inc_estaciones inc_grupo inc_fechas
      nunique_def umbral_minimo_dias_def)

lemma inc_filtrado: "df_lluvia_filtrado ejemplo_inconsistente = ejemplo_inconsistente"
proof -
  have "filter (\<lambda>r. fecha r \<in> set (ultimos_dias 4)) ejemplo_inconsistente = ejemplo_inconsistente"
    by (simp add: ultimos_dias_def ejemplo_inconsistente_def fila_x_def)
  then have "estaciones_incompletas ejemplo_inconsistente = []"
    by (simp add: estaciones_incompletas_def inc_fechas maximo_def conteo_dias_def inc_estaciones inc_grupo nunique_def)
  then show ?thesis by (simp add: df_lluvia_filtrado_def)
qed

lemma inc_codigos: "codigos_inconsistentes ejemplo_inconsistente = [''X'']"
  by (simp add: codigos_inconsistentes_def inc_estaciones inc_grupo)
     (simp add: ejemplo_inconsistente_def fila_x_def List.map_filter_simps nunique_def)

lemma inc_control_calidad: "control_calidad_datos (Some registro_sin_x) ejemplo_inconsistente =
    Inr [fila_x 1 None None, fila_x 2 None None, fila_x 3 None None, fila_x 4 None None]"
proof -
  have "ejemplo_inconsistente \<noteq> []" by (simp add: ejemplo_inconsistente_def)
  then show ?thesis
    by (simp add: control_calidad_datos_def inc_completo inc_filtrado inc_codigos)
       (simp add: corregir_inconsistencias_localidades_def ejemplo_inconsistente_def fila_x_def
          map_dict_def dict_mpio_def_def dict_depto_def_def registro_sin_x_def strip_def espacio_def)
qed

theorem reconciliacion_sin_registro_witness:
  "control_calidad_datos (Some registro_sin_x) ejemplo_inconsistente =
     Inr [fila_x 1 None None, fila_x 2 None None, fila_x 3 None None, fila_x 4 None None]
   \<and> ''X'' \<in> set (codigos_inconsistentes (df_lluvia_filtrado (df_lluvia_completo ejemplo_inconsistente)))
   \<and> ''X'' \<notin> set (codigos_registro registro_sin_x)
   \<and> map sin_localidad [fila_x 1 None None, fila_x 2 None None, fila_x 3 None None, fila_x 4 None None]
       = map sin_localidad ejemplo_inconsistente
   \<and> municipio (fila_x 3 None None) = None \<and> departamento (fila_x 3 None None) = None"
proof -
  have c: "''X'' \<notin> set (codigos_registro registro_sin_x)"
    by (simp add: codigos_registro_def registro_sin_x_def strip_def espacio_def)
  from reconciliacion_sin_registro [OF inc_control_calidad] c show ?thesis
    by (simp add: inc_control_calidad inc_completo inc_filtrado inc_codigos) (simp add: fila_x_def)
qed

subsection \<open>The window of a station\<close>

lemma ven_estaciones: "estaciones ejemplo_ventana = [''A'', ''B'']"
  by (simp add: estaciones_def ejemplo_ventana_def)

lemma ven_total_dias: "nunique (map fecha ejemplo_ventana) = 31"
  by (simp add: nunique_def ejemplo_ventana_def)

lemma ven_conteo_dias: "conteo_dias ejemplo_ventana = [(''A'', 31), (''B'', 27)]"
  by (simp add: conteo_dias_def ven_estaciones) (simp add: ejemplo_ventana_def nunique_def)

lemma ven_a_excluir: "estaciones_a_excluir ejemplo_ventana = []"
  by (simp add: estaciones_a_excluir_def ven_total_dias ven_conteo_dias umbral_minimo_dias_def)

lemma ven_completo: "df_lluvia_completo ejemplo_ventana = ejemplo_ventana"
  by (simp add: df_lluvia_completo_def ven_a_excluir)

lemma ven_fecha_final: "maximo (map fecha ejemplo_ventana) = 31"
  by (simp add: maximo_def ejemplo_ventana_def)

lemma ven_incompletas: "estaciones_incompletas ejemplo_ventana = []"
proof -
  have u4: "filter (\<lambda>r. fecha r \<in> set (ultimos_dias 31)) ejemplo_ventana =
      serie ''A'' [28, 29, 30, 31]"
    by (simp add: ultimos_dias_def ejemplo_ventana_def serie_def)
  show ?thesis
    by (simp add: estaciones_incompletas_def ven_fecha_final u4 conteo_dias_def estaciones_def nunique_def)
qed

lemma ven_filtrado: "df_lluvia_filtrado ejemplo_ventana = ejemplo_ventana"
  by (simp add: df_lluvia_filtrado_def ven_incompletas)

lemma ven_inconsistentes: "codigos_inconsistentes ejemplo_ventana = []"
  by (simp add: codigos_inconsistentes_def ven_estaciones) (simp add: ejemplo_ventana_def mf_serie nunique_def)

lemma ven_control_calidad: "control_calidad_datos sh ejemplo_ventana = Inr ejemplo_ventana"
proof -
  have "ejemplo_ventana \<noteq> []" by (simp add: ejemplo_ventana_def serie_def)
  then show ?thesis by (simp add: control_calidad_datos_def ven_completo ven_filtrado ven_inconsistentes)
qed

lemma ven_ventana_A: "ventana_estacion orden_estable ejemplo_ventana ''A'' =
    serie ''A'' [31, 30, 29, 28, 27, 26, 25, 24, 23, 22, 21, 20, 19, 18, 17, 16, 15, 14, 13, 12,
                 11, 10, 9, 8, 7, 6, 5, 4, 3, 2]"
  unfolding ventana_estacion_def ven_fecha_final
  by (simp add: ejemplo_ventana_def) (simp add: datos_est_def orden_estable_def serie_def)

lemma ven_ventana_B: "ventana_estacion orden_estable ejemplo_ventana ''B'' =
    serie ''B'' [27, 26, 25, 24, 23, 22, 21, 20, 19, 18, 17, 16, 15, 14, 13, 12,
                 11, 10, 9, 8, 7, 6, 5, 4, 3, 2]"
  unfolding ventana_estacion_def ven_fecha_final
  by (simp add: ejemplo_ventana_def) (simp add: datos_est_def orden_estable_def serie_def)

lemma acumulado_serie:
  "acumulado n (serie e fs) = real (min n (length fs - 1))"
  by (simp add: acumulado_def serie_def comp_def map_replicate_const sum_list_replicate
      take_map [symmetric] map_tl [symmetric] del: take_map)

lemma hd_serie: "hd (serie e (f # fs)) = fila e f 1"
  by (simp add: serie_def)

lemma ven_formato_modelo: "generar_formato_modelo orden_estable ejemplo_ventana =
    Inr [fila_modelo_unos ''A'' 31 29, fila_modelo_unos ''B'' 27 25]"
proof -
  have "ejemplo_ventana \<noteq> []" by (simp add: ejemplo_ventana_def serie_def)
  from generar_formato_modelo_Inr [OF orden_estable_descendente this] obtain out
    where out: "generar_formato_modelo orden_estable ejemplo_ventana = Inr out" by blast
  show ?thesis
    unfolding out generar_formato_modelo_filas [OF out]
    by (simp add: ven_estaciones ven_ventana_A ven_ventana_B acumulado_serie hd_serie fila_modelo_unos_def)
      (simp add: serie_def)
qed

lemma ven_propia_B: "ventana_propia orden_estable (grupo_estacion ''B'' ejemplo_ventana) =
    serie ''B'' [27, 26, 25, 24, 23, 22, 21, 20, 19, 18, 17, 16, 15, 14, 13, 12,
                 11, 10, 9, 8, 7, 6, 5, 4, 3, 2, 1]"
  by (simp add: ejemplo_ventana_def) (simp add: ventana_propia_def maximo_def orden_estable_def serie_def)

lemma ven_ultimas_B: "ultimas_30_fechas orden_estable (grupo_estacion ''B'' ejemplo_ventana) =
    serie ''B'' [27, 26, 25, 24, 23, 22, 21, 20, 19, 18, 17, 16, 15, 14, 13, 12,
                 11, 10, 9, 8, 7, 6, 5, 4, 3, 2, 1]"
  by (simp add: ejemplo_ventana_def) (simp add: ultimas_30_fechas_def orden_estable_def serie_def)


lemma s16_estaciones: "estaciones ejemplo_sin_dia_16 = [''C'']"
  by (simp add: estaciones_def ejemplo_sin_dia_16_def)

lemma s16_grupo: "grupo_estacion ''C'' ejemplo_sin_dia_16 = ejemplo_sin_dia_16"
  by (simp add: ejemplo_sin_dia_16_def)

lemma s16_total_dias: "nunique (map fecha ejemplo_sin_dia_16) = 30"
  by (simp add: nunique_def ejemplo_sin_dia_16_def)

lemma s16_completo: "df_lluvia_completo ejemplo_sin_dia_16 = ejemplo_sin_dia_16"
  by (simp add: df_lluvia_completo_def estaciones_a_excluir_def conteo_dias_def s16_estaciones
      s16_grupo s16_total_dias umbral_minimo_dias_def)

lemma s16_fecha_final: "maximo (map fecha ejemplo_sin_dia_16) = 31"
  by (simp add: maximo_def ejemplo_sin_dia_16_def)

lemma s16_incompletas: "estaciones_incompletas ejemplo_sin_dia_16 = []"
proof -
  have u4: "filter (\<lambda>r. fecha r \<in> set (ultimos_dias 31)) ejemplo_sin_dia_16 =
      serie ''C'' [28, 29, 30, 31]"
    by (simp add: ultimos_dias_def ejemplo_sin_dia_16_def serie_def)
  show ?thesis
    by (simp add: estaciones_incompletas_def s16_fecha_final u4 conteo_dias_def estaciones_def nunique_def)
qed

lemma s16_filtrado: "df_lluvia_filtrado ejemplo_sin_dia_16 = ejemplo_sin_dia_16"
  by (simp add: df_lluvia_filtrado_def s16_incompletas)

lemma s16_inconsistentes: "codigos_inconsistentes ejemplo_sin_dia_16 = []"
  by (simp add: codigos_inconsistentes_def s16_estaciones s16_grupo)
    (simp add: ejemplo_sin_dia_16_def mf_serie nunique_def)

lemma s16_control_calidad: "control_calidad_datos sh ejemplo_sin_dia_16 = Inr ejemplo_sin_dia_16"
proof -
  have "ejemplo_sin_dia_16 \<noteq> []" by (simp add: ejemplo_sin_dia_16_def serie_def)
  then show ?thesis by (simp add: control_calidad_datos_def s16_completo s16_filtrado s16_inconsistentes)
qed

lemma s16_ventana: "ventana_estacion orden_estable ejemplo_sin_dia_16 ''C'' =
    serie ''C'' [31, 30, 29, 28, 27, 26, 25, 24, 23, 22, 21, 20, 19, 18, 17, 15, 14, 13, 12,
                 11, 10, 9, 8, 7, 6, 5, 4, 3, 2]"
  unfolding ventana_estacion_def s16_fecha_final s16_grupo
  by (simp add: ejemplo_sin_dia_16_def) (simp add: datos_est_def orden_estable_def serie_def)

lemma s16_formato_modelo: "generar_formato_modelo orden_estable ejemplo_sin_dia_16 =
    Inr [fila_modelo_unos ''C'' 31 28]"
proof -
  have "ejemplo_sin_dia_16 \<noteq> []" by (simp add: ejemplo_sin_dia_16_def serie_def)
  from generar_formato_modelo_Inr [OF orden_estable_descendente this] obtain out
    where out: "generar_formato_modelo orden_estable ejemplo_sin_dia_16 = Inr out" by blast
  show ?thesis
    unfolding out generar_formato_modelo_filas [OF out]
    by (simp add: s16_estaciones s16_ventana acumulado_serie hd_serie fila_modelo_unos_def)
      (simp add: serie_def)
qed

lemma s16_propia: "ventana_propia orden_estable (grupo_estacion ''C'' ejemplo_sin_dia_16) =
    serie ''C'' [31, 30, 29, 28, 27, 26, 25, 24, 23, 22, 21, 20, 19, 18, 17, 15, 14, 13, 12,
                 11, 10, 9, 8, 7, 6, 5, 4, 3, 2]"
  unfolding s16_grupo ventana_propia_def s16_fecha_final
  by (simp add: ejemplo_sin_dia_16_def) (simp add: orden_estable_def serie_def)

lemma s16_ultimas: "ultimas_30_fechas orden_estable (grupo_estacion ''C'' ejemplo_sin_dia_16) =
    serie ''C'' [31, 30, 29, 28, 27, 26, 25, 24, 23, 22, 21, 20, 19, 18, 17, 15, 14, 13, 12,
                 11, 10, 9, 8, 7, 6, 5, 4, 3, 2, 1]"
  unfolding s16_grupo
  by (simp add: ejemplo_sin_dia_16_def) (simp add: ultimas_30_fechas_def orden_estable_def serie_def)

text \<open>C5, as the code has it. The window of a station that survives the Quality Gate holds
  the station's rows of the 30 calendar days that end at the latest date of the whole
  quality-gated table, sorted by date, latest first; a station with a row there has one row
  in the feature table, and \<open>daily rain\<close> and the accumulations of a row of the feature
  table are computed from the window of its station.\<close>

theorem ventana_global:
  assumes ord: "orden_descendente ordenar"
    and qc: "control_calidad_datos sh df_lluvia_diaria = Inr df"
    and gen: "generar_formato_modelo ordenar df = Inr out"
  shows "(\<forall>e \<in> set (estaciones df).
            mset (ventana_estacion ordenar df e) =
              filter_mset (\<lambda>r. codigoestacion r = e \<and> Max (fecha ` set df) - 29 \<le> fecha r) (mset df)
          \<and> sorted_wrt (\<lambda>a b. fecha b \<le> fecha a) (ventana_estacion ordenar df e)
          \<and> (ventana_estacion ordenar df e \<noteq> [] \<longrightarrow> e \<in> codigoestacion ` set out))
    \<and> (\<forall>fm \<in> set out.
          codigoestacion fm \<in> set (estaciones df)
          \<and> daily_rain fm = Some (lluvia_diaria (hd (ventana_estacion ordenar df (codigoestacion fm))))
          \<and> rain_1 fm = Some (acumulado 1 (ventana_estacion ordenar df (codigoestacion fm)))
          \<and> rain_2 fm = Some (acumulado 2 (ventana_estacion ordenar df (codigoestacion fm)))
          \<and> rain_3 fm = Some (acumulado 3 (ventana_estacion ordenar df (codigoestacion fm)))
          \<and> rain_15 fm = Some (acumulado 15 (ventana_estacion ordenar df (codigoestacion fm)))
          \<and> rain_30 fm = Some (acumulado 30 (ventana_estacion ordenar df (codigoestacion fm))))"
proof (intro conjI ballI)
  fix e assume e: "e \<in> set (estaciones df)"
  from gen have "df \<noteq> []" by (auto simp: generar_formato_modelo_def)
  then have m: "maximo (map fecha df) = Max (fecha ` set df)" by (simp add: maximo_eq_Max)
  show "mset (ventana_estacion ordenar df e) =
      filter_mset (\<lambda>r. codigoestacion r = e \<and> Max (fecha ` set df) - 29 \<le> fecha r) (mset df)"
    by (simp add: ventana_estacion_def datos_est_mset [OF ord] grupo_estacion_def m filter_filter_mset)
  have "sorted (map (\<lambda>r. - fecha r) (ventana_estacion ordenar df e))"
    unfolding ventana_estacion_def by (rule datos_est_sorted [OF ord])
  then show "sorted_wrt (\<lambda>a b. fecha b \<le> fecha a) (ventana_estacion ordenar df e)"
    by (simp add: sorted_wrt_map)
  have "map codigoestacion out = filter (\<lambda>e. ventana_estacion ordenar df e \<noteq> []) (estaciones df)"
    by (simp add: generar_formato_modelo_filas [OF gen] comp_def)
  then have "codigoestacion ` set out = {e \<in> set (estaciones df). ventana_estacion ordenar df e \<noteq> []}"
    by (metis set_map set_filter)
  with e show "ventana_estacion ordenar df e \<noteq> [] \<longrightarrow> e \<in> codigoestacion ` set out" by simp
next
  fix fm assume fm: "fm \<in> set out"
  have "map codigoestacion out = filter (\<lambda>e. ventana_estacion ordenar df e \<noteq> []) (estaciones df)"
    by (simp add: generar_formato_modelo_filas [OF gen] comp_def)
  then have "codigoestacion ` set out = {e \<in> set (estaciones df). ventana_estacion ordenar df e \<noteq> []}"
    by (metis set_map set_filter)
  with fm show "codigoestacion fm \<in> set (estaciones df)" by blast
  from filas_de_la_ventana [OF ord gen fm]
  show "daily_rain fm = Some (lluvia_diaria (hd (ventana_estacion ordenar df (codigoestacion fm))))"
    "rain_1 fm = Some (acumulado 1 (ventana_estacion ordenar df (codigoestacion fm)))"
    "rain_2 fm = Some (acumulado 2 (ventana_estacion ordenar df (codigoestacion fm)))"
    "rain_3 fm = Some (acumulado 3 (ventana_estacion ordenar df (codigoestacion fm)))"
    "rain_15 fm = Some (acumulado 15 (ventana_estacion ordenar df (codigoestacion fm)))"
    "rain_30 fm = Some (acumulado 30 (ventana_estacion ordenar df (codigoestacion fm)))"
    by simp_all
qed

theorem ventana_global_witness:
  "orden_descendente orden_estable
   \<and> control_calidad_datos None ejemplo_ventana = Inr ejemplo_ventana
   \<and> generar_formato_modelo orden_estable ejemplo_ventana =
       Inr [fila_modelo_unos ''A'' 31 29, fila_modelo_unos ''B'' 27 25]
   \<and> Max (fecha ` set ejemplo_ventana) = 31
   \<and> ventana_estacion orden_estable ejemplo_ventana ''B'' =
       serie ''B'' [27, 26, 25, 24, 23, 22, 21, 20, 19, 18, 17, 16, 15, 14, 13, 12,
                    11, 10, 9, 8, 7, 6, 5, 4, 3, 2]
   \<and> mset (ventana_estacion orden_estable ejemplo_ventana ''B'') =
       filter_mset (\<lambda>r. codigoestacion r = ''B'' \<and> Max (fecha ` set ejemplo_ventana) - 29 \<le> fecha r)
         (mset ejemplo_ventana)
   \<and> rain_30 (fila_modelo_unos ''B'' 27 25) =
       Some (acumulado 30 (ventana_estacion orden_estable ejemplo_ventana ''B''))
   \<and> rain_30 (fila_modelo_unos ''B'' 27 25) = Some 25"
proof -
  have m: "Max (fecha ` set ejemplo_ventana) = 31"
    using maximo_eq_Max [of "map fecha ejemplo_ventana"]
    by (simp add: ven_fecha_final) (simp add: ejemplo_ventana_def serie_def)
  have e: "''B'' \<in> set (estaciones ejemplo_ventana)" by (simp add: ven_estaciones)
  have f: "fila_modelo_unos ''B'' 27 25 \<in> set [fila_modelo_unos ''A'' 31 29, fila_modelo_unos ''B'' 27 25]"
    by simp
  from ventana_global [OF orden_estable_descendente ven_control_calidad [of None] ven_formato_modelo]
  have "mset (ventana_estacion orden_estable ejemplo_ventana ''B'') =
       filter_mset (\<lambda>r. codigoestacion r = ''B'' \<and> Max (fecha ` set ejemplo_ventana) - 29 \<le> fecha r)
         (mset ejemplo_ventana)"
    and "rain_30 (fila_modelo_unos ''B'' 27 25) =
       Some (acumulado 30 (ventana_estacion orden_estable ejemplo_ventana ''B''))"
    using e f by (blast, simp add: fila_modelo_unos_def)
  with m show ?thesis
    by (simp add: orden_estable_descendente ven_control_calidad ven_formato_modelo ven_ventana_B
        del: mset_map) (simp add: fila_modelo_unos_def)
qed

text \<open>C5 as stated fails on tables the Quality Gate returns. It returns \<open>ejemplo_ventana\<close>
  as it is (station B has no row in the last four days, so the recency count has no entry
  for it): the latest date of B is day 27, and the 30 calendar days that end there hold its
  27 rows, but the window the code takes ends at day 31 of station A and holds the 26 rows
  of the days 2 to 27, so \<open>30-rain ant.rain\<close> of B is 25 and not 26. It returns
  \<open>ejemplo_sin_dia_16\<close> as it is, too: the 30 most recent dates of station C are all its 30
  dates, but the window the code takes holds the 29 rows of the days 2 to 31, so
  \<open>30-rain ant.rain\<close> is 28 and not 29.\<close>

theorem ventana_propia_counterexample:
  "control_calidad_datos None ejemplo_ventana = Inr ejemplo_ventana
   \<and> generar_formato_modelo orden_estable ejemplo_ventana =
       Inr [fila_modelo_unos ''A'' 31 29, fila_modelo_unos ''B'' 27 25]
   \<and> rain_30 (fila_modelo_unos ''B'' 27 25) = Some 25
   \<and> length (ventana_estacion orden_estable ejemplo_ventana ''B'') = 26
   \<and> length (ventana_propia orden_estable (grupo_estacion ''B'' ejemplo_ventana)) = 27
   \<and> acumulado 30 (ventana_propia orden_estable (grupo_estacion ''B'' ejemplo_ventana)) = 26
   \<and> acumulado 30 (ultimas_30_fechas orden_estable (grupo_estacion ''B'' ejemplo_ventana)) = 26
   \<and> control_calidad_datos None ejemplo_sin_dia_16 = Inr ejemplo_sin_dia_16
   \<and> generar_formato_modelo orden_estable ejemplo_sin_dia_16 = Inr [fila_modelo_unos ''C'' 31 28]
   \<and> rain_30 (fila_modelo_unos ''C'' 31 28) = Some 28
   \<and> length (ventana_estacion orden_estable ejemplo_sin_dia_16 ''C'') = 29
   \<and> length (ultimas_30_fechas orden_estable (grupo_estacion ''C'' ejemplo_sin_dia_16)) = 30
   \<and> acumulado 30 (ultimas_30_fechas orden_estable (grupo_estacion ''C'' ejemplo_sin_dia_16)) = 29"
  by (simp add: ven_control_calidad ven_formato_modelo ven_ventana_B ven_propia_B ven_ultimas_B
      s16_control_calidad s16_formato_modelo s16_ventana s16_ultimas acumulado_serie)
    (simp add: fila_modelo_unos_def serie_def)

subsection \<open>Block Scheduler\<close>

lemma num_bloques_rec:
  "cs < e \<Longrightarrow> num_bloques cs e = 1 + num_bloques (min (cs + 86400) e) e"
  by (auto simp: num_bloques_def min_def)

lemma num_bloques_nonneg: "0 \<le> num_bloques cs e"
  by (simp add: num_bloques_def pos_imp_zdiv_nonneg_iff)

lemma intentar_bloque_traza:
  "intentar_bloque cli s e k st = Some (ok, block_data, st') \<Longrightarrow>
   \<exists>evs. traza st' = traza st @ evs \<and> list_all es_descarga evs
     \<and> filter es_bloque evs = (if k = 0 then [Bloque s e] else [])
     \<and> (ok \<longleftrightarrow> block_data \<noteq> [])"
proof (induction cli s e k st rule: intentar_bloque.induct)
  case (1 cli s e k st)
  show ?case
  proof (cases "k \<le> max_retries")
    case False
    with "1.prems" show ?thesis
      by (simp add: intentar_bloque.simps [of cli s e k st] max_retries_def)
  next
    case le: True
    define st1 where "st1 = (if k > 0 then st else st\<lparr>traza := traza st @ [Bloque s e]\<rparr>)"
    note eq = "1.prems" [unfolded intentar_bloque.simps [of cli s e k st]]
    from eq le obtain bd w' where
      dl: "descargar_lotes cli s e 0 [] 0 (mundo st1) = Some (bd, w')"
      by (auto simp: st1_def Let_def split: option.splits if_splits)
    show ?thesis
    proof (cases "bd \<noteq> []")
      case True
      with eq le dl have "ok" "block_data = bd" "st' = st1\<lparr>mundo := w'\<rparr>"
        by (auto simp: st1_def Let_def split: if_splits)
      then show ?thesis using True by (auto simp: st1_def)
    next
      case False
      define st2 where "st2 = (if k + 1 \<le> max_retries
                       then st1\<lparr>mundo := w', traza := traza st1 @ [Pausa 5]\<rparr>
                       else st1\<lparr>mundo := w'\<rparr>)"
      from eq le dl False
      have rec: "intentar_bloque cli s e (k + 1) st2 = Some (ok, block_data, st')"
        by (auto simp: st1_def st2_def Let_def split: if_splits)
      from "1.IH" [OF le st1_def dl refl False rec [unfolded st2_def]]
      obtain evs where evs: "traza st' = traza st2 @ evs" "list_all es_descarga evs"
        "filter es_bloque evs = []" "ok \<longleftrightarrow> block_data \<noteq> []"
        by (auto simp: st2_def)
      then show ?thesis
        by (auto simp: st2_def st1_def)
    qed
  qed
qed

lemma descargar_bloques_traza:
  "descargar_bloques cli cs e all_data failed st = Some (all', failed', st') \<Longrightarrow>
   \<exists>evs extra nf. traza st' = traza st @ evs \<and> list_all es_descarga evs
     \<and> int (length (filter es_bloque evs)) = num_bloques cs e
     \<and> all' = all_data @ extra \<and> failed' = failed @ nf
     \<and> int (length nf) \<le> num_bloques cs e
     \<and> (extra = [] \<longrightarrow> int (length nf) = num_bloques cs e)"
proof (induction cli cs e all_data failed st rule: descargar_bloques.induct)
  case (1 cli cs e all_data failed st)
  show ?case
  proof (cases "cs < e")
    case False
    with "1.prems" show ?thesis
      by (simp add: descargar_bloques.simps [of cli cs e all_data failed st] num_bloques_def)
  next
    case lt: True
    define ce where "ce = min (cs + 86400 * block_size) e"
    note eq = "1.prems" [unfolded descargar_bloques.simps [of cli cs e all_data failed st] Let_def,
        folded ce_def]
    from eq lt obtain ok bd st1 where
      ib: "intentar_bloque cli cs ce 0 st = Some (ok, bd, st1)" and
      rec: "descargar_bloques cli ce e (if ok then all_data @ bd else all_data)
              (if \<not> ok then failed @ [(cs, ce)] else failed) st1 = Some (all', failed', st')"
      by (auto split: option.splits)
    from intentar_bloque_traza [OF ib] obtain evs1 where
      e1: "traza st1 = traza st @ evs1" "list_all es_descarga evs1"
        "filter es_bloque evs1 = [Bloque cs ce]" "ok \<longleftrightarrow> bd \<noteq> []"
      by auto
    from "1.IH" [OF lt ce_def ib refl refl rec] obtain evs2 extra2 nf2 where
      e2: "traza st' = traza st1 @ evs2" "list_all es_descarga evs2"
        "int (length (filter es_bloque evs2)) = num_bloques ce e"
        "all' = (if ok then all_data @ bd else all_data) @ extra2"
        "failed' = (if \<not> ok then failed @ [(cs, ce)] else failed) @ nf2"
        "int (length nf2) \<le> num_bloques ce e"
        "extra2 = [] \<longrightarrow> int (length nf2) = num_bloques ce e"
      by blast
    have n: "num_bloques cs e = 1 + num_bloques ce e"
      using num_bloques_rec [OF lt] by (simp add: ce_def block_size_def)
    show ?thesis
    proof (intro exI conjI)
      show "traza st' = traza st @ (evs1 @ evs2)" using e1 e2 by simp
      show "list_all es_descarga (evs1 @ evs2)" using e1 e2 by simp
      show "int (length (filter es_bloque (evs1 @ evs2))) = num_bloques cs e"
        using e1 e2 n by simp
      show "all' = all_data @ ((if ok then bd else []) @ extra2)" using e2 by simp
      show "failed' = failed @ ((if \<not> ok then [(cs, ce)] else []) @ nf2)" using e2 by simp
      show "int (length ((if \<not> ok then [(cs, ce)] else []) @ nf2)) \<le> num_bloques cs e"
        using e2 n by simp
      show "(if ok then bd else []) @ extra2 = [] \<longrightarrow>
          int (length ((if \<not> ok then [(cs, ce)] else []) @ nf2)) = num_bloques cs e"
        using e1 e2 n by auto
    qed
  qed
qed





lemma total_days_pos:
  assumes "s < e"
  shows "0 < total_days s e"
proof -
  from assms have "0 \<le> e - s" by simp
  then have "0 \<le> (e - s) div 86400" by (intro pos_imp_zdiv_nonneg_iff [THEN iffD2]) simp_all
  then have "0 < (e - s) div 86400 + 1" by (rule add_nonneg_pos) simp
  then show ?thesis by (simp only: total_days_def)
qed

lemma obtener_traza:
  assumes "obtener_datos_lluvia_masivos cli s e st = Some (res, st')" and "s < e"
  shows "\<exists>all_data failed evs.
      descargar_bloques cli s e [] [] st = Some (all_data, failed, st')
    \<and> res = Inr (all_data, success_percentage (total_days s e) (failed_days failed))
    \<and> traza st' = traza st @ evs \<and> list_all es_descarga evs
    \<and> int (length (filter es_bloque evs)) = num_bloques s e
    \<and> int (length failed) \<le> num_bloques s e
    \<and> (all_data = [] \<longrightarrow> int (length failed) = num_bloques s e)"
proof -
  from assms(1) obtain all_data failed where
    db: "descargar_bloques cli s e [] [] st = Some (all_data, failed, st')"
    by (auto simp: obtener_datos_lluvia_masivos_def split: option.splits if_splits)
  from total_days_pos [OF assms(2)] have "total_days s e \<noteq> 0" by simp
  with assms(1) db
  have r: "res = Inr (all_data, success_percentage (total_days s e) (failed_days failed))"
    by (simp add: obtener_datos_lluvia_masivos_def)
  from descargar_bloques_traza [OF db] r db show ?thesis by auto
qed







subsection \<open>Runs against \<open>cliente_diario\<close>\<close>













subsection \<open>Spatial Filter\<close>

lemma trozos_Nil [simp]: "trozos n [] = []"
  by (simp add: trozos.simps)

lemma concat_trozos_filtrados:
  "0 < n \<Longrightarrow>
   concat (filter (\<lambda>c. c \<noteq> []) (map (filter P) (trozos n xs))) = filter P xs"
proof (induction n xs rule: trozos.induct)
  case (1 n xs)
  show ?case
  proof (cases "xs = []")
    case True
    then show ?thesis by simp
  next
    case False
    with "1.prems" have t: "trozos n xs = take n xs # trozos n (drop n xs)"
      by (simp add: trozos.simps [of n xs])
    from "1.IH" "1.prems" False
    have ih: "concat (filter (\<lambda>c. c \<noteq> []) (map (filter P) (trozos n (drop n xs)))) =
        filter P (drop n xs)"
      by simp
    have "filter P (take n xs) @ filter P (drop n xs) = filter P xs"
      by (simp only: filter_append [symmetric] append_take_drop_id)
    with ih show ?thesis by (auto simp: t)
  qed
qed

lemma filtrar_region_andina_Some:
  "filtrar_region_andina (Some g) df = Inr (filter (dentro (union_all g)) df)"
proof -
  have "filter (dentro (union_all g)) (filter (\<lambda>r. latitud r \<noteq> None \<and> longitud r \<noteq> None) df)
      = filter (dentro (union_all g)) df"
    by (induction df) (auto simp: dentro_def split: option.splits)
  then show ?thesis
    by (simp add: filtrar_region_andina_def cargar_region_def Let_def concat_trozos_filtrados
        chunk_size_def)
qed

text \<open>C6, as the code has it. When the region cannot be loaded, \<open>cargar_region\<close> raises and
  the Spatial Filter passes the error on. When the region loads, the filter returns a table
  for every input, and the table is empty when the region has no polygon or when every
  input row lacks a numeric latitude or longitude.\<close>

theorem filtro_region:
  "filtrar_region_andina None df = Inl ErrorCargandoRegion
   \<and> (\<exists>out. filtrar_region_andina (Some g) df = Inr out)
   \<and> (g = [] \<or> (\<forall>r \<in> set df. latitud r = None \<or> longitud r = None)
        \<longrightarrow> filtrar_region_andina (Some g) df = Inr [])"
proof (intro conjI impI)
  show "filtrar_region_andina None df = Inl ErrorCargandoRegion"
    by (simp add: filtrar_region_andina_def cargar_region_def)
  show "\<exists>out. filtrar_region_andina (Some g) df = Inr out"
    by (simp add: filtrar_region_andina_Some)
  assume "g = [] \<or> (\<forall>r \<in> set df. latitud r = None \<or> longitud r = None)"
  then have "filter (dentro (union_all g)) df = []"
    by (auto simp: filter_empty_conv dentro_def union_all_def split: option.splits)
  then show "filtrar_region_andina (Some g) df = Inr []"
    by (simp add: filtrar_region_andina_Some)
qed

theorem filtro_region_witness:
  "filtrar_region_andina (Some region_todo) [reg_sin_coordenadas 0] = Inr []
   \<and> latitud (reg_sin_coordenadas 0) = None
   \<and> filtrar_region_andina (Some []) ejemplo_dos_municipios = Inr []
   \<and> filtrar_region_andina None ejemplo_dos_municipios = Inl ErrorCargandoRegion"
  using filtro_region [of "[reg_sin_coordenadas 0]" region_todo]
    filtro_region [of ejemplo_dos_municipios "[]"]
  by (simp add: reg_sin_coordenadas_def)

text \<open>C6 as stated fails: with a region that does not load the Spatial Filter raises, on
  any input.\<close>

theorem filtro_region_counterexample:
  "filtrar_region_andina None ejemplo_dos_municipios = Inl ErrorCargandoRegion"
  by (simp add: filtrar_region_andina_def cargar_region_def)

subsection \<open>The range of the pipeline: 31 days, 31 blocks\<close>

lemma rango_diferencia: "h * 86400 + 86399 - (h - days_back) * 86400 = 2678399" for h :: int
  by (simp add: days_back_def algebra_simps)

lemma rango_lt: "(h - days_back) * 86400 < h * 86400 + 86399"
  by (simp add: days_back_def algebra_simps)

lemma rango_total_days: "total_days ((h - days_back) * 86400) (h * 86400 + 86399) = 31"
proof -
  have "(2678399::int) div 86400 + 1 = 31" by simp
  then show ?thesis by (simp only: total_days_def rango_diferencia)
qed

lemma rango_num_bloques: "num_bloques ((h - days_back) * 86400) (h * 86400 + 86399) = 31"
proof -
  have "(2678399 + 86399::int) div 86400 = 31" by simp
  then show ?thesis by (simp only: num_bloques_def rango_diferencia rango_lt if_True)
qed

lemma es_descarga_sin_efectos:
  "list_all es_descarga evs \<Longrightarrow> count_list evs (Pausa 10) = 0 \<and> archivos_escritos evs = []"
proof (induction evs)
  case Nil
  then show ?case by (simp add: archivos_escritos_def List.map_filter_simps)
next
  case (Cons ev evs)
  then show ?case by (cases ev) (auto simp: archivos_escritos_def List.map_filter_simps)
qed

lemma archivos_escritos_append [simp]:
  "archivos_escritos (xs @ ys) = archivos_escritos xs @ archivos_escritos ys"
  unfolding archivos_escritos_def
  by (induction xs) (simp_all add: List.map_filter_simps split: option.splits)

lemma archivos_escritos_simps [simp]:
  "archivos_escritos [] = []"
  "archivos_escritos (Escribe a # evs) = a # archivos_escritos evs"
  "archivos_escritos (Pausa n # evs) = archivos_escritos evs"
  "archivos_escritos (Bloque s e # evs) = archivos_escritos evs"
  by (simp_all add: archivos_escritos_def List.map_filter_simps)

lemma obtener_rango:
  assumes "obtener_datos_lluvia_masivos cli ((h - days_back) * 86400) (h * 86400 + 86399) st
            = Some (res, st')"
  shows "\<exists>all_data pct evs. res = Inr (all_data, pct) \<and> (all_data = [] \<longrightarrow> pct = 0)
     \<and> traza st' = traza st @ evs \<and> list_all es_descarga evs"
proof -
  from obtener_traza [OF assms rango_lt] obtain all_data failed evs where
    h: "res = Inr (all_data, success_percentage
            (total_days ((h - days_back) * 86400) (h * 86400 + 86399)) (failed_days failed))"
      "traza st' = traza st @ evs" "list_all es_descarga evs"
      "all_data = [] \<longrightarrow>
         int (length failed) = num_bloques ((h - days_back) * 86400) (h * 86400 + 86399)"
    by blast
  have "success_percentage 31 (failed_days failed) = 0" if "int (length failed) = 31"
    using that by (simp add: success_percentage_def failed_days_def block_size_def)
  with h [unfolded rango_total_days rango_num_bloques] show ?thesis by blast
qed

lemma guardar_respaldo_traza:
  "\<exists>bk. traza (guardar_respaldo all_data st) = traza st @ bk
     \<and> count_list bk (Pausa 10) = 0
     \<and> list_all (\<lambda>a. \<not> es_producto a) (archivos_escritos bk)"
  by (cases "List.map_filter fechaobservacion all_data") (simp_all add: guardar_respaldo_def)

end
